theory Spec2Isabelle
  imports Complex_Main "HOL-Library.Code_Target_Nat"
begin

section \<open>Python values\<close>

text \<open>
  A Python \<open>str\<close> is a sequence of Unicode code points, and \<open>len\<close> counts code points;
  it is modelled as a list of code points. \<open>asc\<close> writes the ASCII part of a literal.
\<close>

type_synonym ustring = "nat list"

definition asc :: "string \<Rightarrow> ustring" where
  "asc s = map of_char s"

text \<open>
  An exception: the name of its class and the text \<open>str(e)\<close> gives. \<open>Exn\<close> is an
  instance of \<open>Exception\<close> or of a class derived from it, which a clause
  \<open>except Exception\<close> catches; \<open>BaseExn\<close> is any other exception (\<open>SystemExit\<close>,
  \<open>KeyboardInterrupt\<close>, \<open>GeneratorExit\<close>), which passes through such a clause.
\<close>

datatype exn = Exn string ustring | BaseExn string ustring

section \<open>Binary64 floating point\<close>

text \<open>
  A finite Python \<open>float\<close> is modelled by its exact value, a rational.
  \<open>round_double\<close> is the rounding every operation ends with: to the nearest binary64
  number, ties to the even significand (53 bits, least normal exponent \<open>-1022\<close>).
\<close>

function bitlen :: "int \<Rightarrow> int" where
  "bitlen n = (if n \<le> 0 then 0 else 1 + bitlen (n div 2))"
  by pat_completeness auto
termination
  by (relation "measure nat") auto

declare bitlen.simps [simp del]

definition pow2 :: "int \<Rightarrow> rat" where
  "pow2 e = (if 0 \<le> e then 2 ^ nat e else 1 / 2 ^ nat (- e))"

definition round_half_even :: "rat \<Rightarrow> int" where
  "round_half_even x =
     (let f = \<lfloor>x\<rfloor>; d = x - of_int f
      in if d < 1/2 then f else if 1/2 < d then f + 1 else if even f then f else f + 1)"

definition exponent :: "rat \<Rightarrow> int" where
  \<comment> \<open>for \<open>0 < x\<close>: the \<open>e\<close> with \<open>2^e \<le> x < 2^(e+1)\<close>\<close>
  "exponent x =
     (let (p, q) = quotient_of x;
          e0 = bitlen p - bitlen q
      in if pow2 e0 \<le> x then e0 else e0 - 1)"

definition round_double :: "rat \<Rightarrow> rat" where
  "round_double x =
     (if x = 0 then 0
      else let a = \<bar>x\<bar>;
               e = max (exponent a) (- 1022);
               u = pow2 (e - 52);
               r = of_int (round_half_even (a / u)) * u
           in if x < 0 then - r else r)"

text \<open>The float literals of the source, each the binary64 number nearest to the decimal.\<close>

definition flt_0_98 :: rat where
  "flt_0_98 = 2206763817411543 / 2251799813685248"

definition flt_0_3 :: rat where
  "flt_0_3 = 5404319552844595 / 18014398509481984"

definition flt_0_6 :: rat where
  "flt_0_6 = 5404319552844595 / 9007199254740992"

text \<open>
  \<open>int * float\<close> first converts the integer, correctly rounded, and raises
  \<open>OverflowError\<close> when the rounded value is beyond the largest finite float.
\<close>

definition float_of_int :: "int \<Rightarrow> exn + rat" where
  "float_of_int n =
     (let r = round_double (of_int n)
      in if 2 ^ 1024 \<le> \<bar>r\<bar>
         then Inl (Exn ''OverflowError'' (asc ''int too large to convert to float''))
         else Inr r)"

text \<open>
  The product of two floats. The only product of the source has the factor \<open>0.98\<close>,
  which cannot leave the finite range.
\<close>

definition float_mul :: "rat \<Rightarrow> rat \<Rightarrow> rat" where
  "float_mul a b = round_double (a * b)"

text \<open>\<open>int(x)\<close> of a finite float truncates towards zero.\<close>

definition int_of_float :: "rat \<Rightarrow> int" where
  "int_of_float x = (if 0 \<le> x then \<lfloor>x\<rfloor> else \<lceil>x\<rceil>)"

section \<open>Data model\<close>

text \<open>The dictionary \<open>_parse_llm_response\<close> builds (\<open>llm_result\<close>).\<close>

record rubric_result =
  overall_score :: int
  grammar_score :: int
  vocabulary_score :: int
  content_score :: int
  overall_feedback :: ustring
  strengths :: "ustring list"
  weaknesses :: "ustring list"
  suggestions :: "ustring list"

text \<open>One entry of \<open>errors\<close> in the dictionary of \<open>check_grammar\<close>.\<close>

record error_info =
  err_error :: ustring
  err_suggestion :: ustring
  err_context :: ustring
  err_offset :: int
  err_length :: int

text \<open>The dictionary \<open>check_grammar\<close> returns with \<open>return_dict=True\<close>.\<close>

record grammar_report =
  errors :: "error_info list"
  error_count :: int
  message :: ustring

text \<open>
  The dictionary \<open>analyze_vocabulary\<close> returns with \<open>return_dict=True\<close>; the keys
  \<open>advanced_ratio\<close> and \<open>common_words\<close> are absent for a text without words.
\<close>

record vocabulary_report =
  word_count :: int
  unique_words :: int
  lexical_diversity :: rat
  advanced_ratio :: "rat option"
  common_words :: "(ustring \<times> int) list option"
  feedback :: ustring

text \<open>The dictionary \<open>_calculate_final_scores\<close> returns.\<close>

record final_scores =
  overall :: int
  grammar :: int
  vocabulary :: int
  content :: int

section \<open>Score reconciliation\<close>

definition calculate_final_scores ::
  "rubric_result \<Rightarrow> grammar_report \<Rightarrow> vocabulary_report \<Rightarrow> exn + final_scores" where
  "calculate_final_scores llm_result grammar_results vocabulary_results =
     (let grammar0 = grammar_score llm_result;
          vocabulary0 = vocabulary_score llm_result;
          content1 = content_score llm_result;
          grammar_error_count = error_count grammar_results;
          grammar1 =
            (if grammar_error_count > 10 then max 0 (grammar0 - 8)
             else if grammar_error_count > 5 then max 0 (grammar0 - 5)
             else if grammar_error_count > 2 then max 0 (grammar0 - 3)
             else grammar0);
          diversity = lexical_diversity vocabulary_results;
          vocabulary1 =
            (if diversity < flt_0_3 then max 0 (vocabulary0 - 5)
             else if diversity > flt_0_6 then min 30 (vocabulary0 + 3)
             else vocabulary0)
      in case float_of_int (grammar1 + vocabulary1 + content1) of
           Inl e \<Rightarrow> Inl e
         | Inr s \<Rightarrow>
             Inr \<lparr>overall = int_of_float (float_mul s flt_0_98),
                  grammar = grammar1,
                  vocabulary = vocabulary1,
                  content = content1\<rparr>)"

text \<open>
  The penalty of the specification: 8 above ten errors, 5 above five, 3 above two, else none.
\<close>

definition grammar_penalty :: "int \<Rightarrow> int" where
  "grammar_penalty c = (if c > 10 then 8 else if c > 5 then 5 else if c > 2 then 3 else 0)"

section \<open>Strings\<close>

text \<open>
  The code points for which \<open>str.isspace\<close> holds; \<open>str.strip()\<close> and \<open>str.split()\<close>
  remove and split at exactly these.
\<close>

definition isspace :: "nat \<Rightarrow> bool" where
  "isspace c \<longleftrightarrow>
     (0x9 \<le> c \<and> c \<le> 0xD) \<or> (0x1C \<le> c \<and> c \<le> 0x20) \<or> c = 0x85 \<or> c = 0xA0 \<or>
     c = 0x1680 \<or> (0x2000 \<le> c \<and> c \<le> 0x200A) \<or> c = 0x2028 \<or> c = 0x2029 \<or>
     c = 0x202F \<or> c = 0x205F \<or> c = 0x3000"

definition strip :: "ustring \<Rightarrow> ustring" where
  "strip s = rev (dropWhile isspace (rev (dropWhile isspace s)))"

definition startswith :: "ustring \<Rightarrow> ustring \<Rightarrow> bool" where
  "startswith s p \<longleftrightarrow> take (length p) s = p"

text \<open>\<open>s.startswith(ps)\<close> for a tuple \<open>ps\<close>.\<close>

definition startswith_any :: "ustring \<Rightarrow> ustring list \<Rightarrow> bool" where
  "startswith_any s ps = list_ex (startswith s) ps"

text \<open>\<open>s.split(sep)\<close> for a separator of one character: empty pieces are kept.\<close>

fun split_on :: "nat \<Rightarrow> ustring \<Rightarrow> ustring list" where
  "split_on sep [] = [[]]"
| "split_on sep (c # cs) =
     (if c = sep then [] # split_on sep cs
      else (case split_on sep cs of
              [] \<Rightarrow> [[c]]
            | l # ls \<Rightarrow> (c # l) # ls))"

text \<open>
  \<open>s.split()\<close>: the maximal runs of characters that are not whitespace; \<open>cur\<close> is the
  run being read.
\<close>

fun split_runs :: "ustring \<Rightarrow> ustring \<Rightarrow> ustring list" where
  "split_runs cur [] = (if cur = [] then [] else [cur])"
| "split_runs cur (c # cs) =
     (if isspace c then (if cur = [] then split_runs [] cs else cur # split_runs [] cs)
      else split_runs (cur @ [c]) cs)"

definition split_whitespace :: "ustring \<Rightarrow> ustring list" where
  "split_whitespace s = split_runs [] s"

text \<open>
  \<open>s.replace(old, new)\<close>: every occurrence of \<open>old\<close>, found from the left without
  overlaps, becomes \<open>new\<close>.
\<close>

function replace :: "ustring \<Rightarrow> ustring \<Rightarrow> ustring \<Rightarrow> ustring" where
  "replace s old new =
     (if old = [] then new @ concat (map (\<lambda>c. c # new) s)
      else if s = [] then []
      else if startswith s old then new @ replace (drop (length old) s) old new
      else hd s # replace (tl s) old new)"
  by pat_completeness auto
termination
  by (relation "measure (\<lambda>(s, old, new). length s)") auto

declare replace.simps [simp del]

text \<open>\<open>sep.join(parts)\<close>.\<close>

fun join :: "ustring \<Rightarrow> ustring list \<Rightarrow> ustring" where
  "join sep [] = []"
| "join sep [p] = p"
| "join sep (p # q # ps) = p @ sep @ join sep (q # ps)"

text \<open>\<open>str(n)\<close> of an integer that is not negative, as every length is.\<close>

function str_of_nat :: "nat \<Rightarrow> ustring" where
  "str_of_nat n = (if n < 10 then [0x30 + n] else str_of_nat (n div 10) @ [0x30 + n mod 10])"
  by pat_completeness auto
termination
  by (relation "measure id") auto

declare str_of_nat.simps [simp del]

text \<open>
  The pattern \<open>\d\<close> of a \<open>str\<close> regular expression matches the decimal digits of
  Unicode (category Nd), which \<open>int\<close> converts by their digit value. The digits come in
  runs of ten; the list holds the zero of each run (Unicode 14.0, as in CPython 3.11).
\<close>

definition decimal_zeros :: "nat list" where
  "decimal_zeros =
     [0x30, 0x660, 0x6F0, 0x7C0, 0x966, 0x9E6, 0xA66, 0xAE6, 0xB66, 0xBE6, 0xC66, 0xCE6,
      0xD66, 0xDE6, 0xE50, 0xED0, 0xF20, 0x1040, 0x1090, 0x17E0, 0x1810, 0x1946, 0x19D0,
      0x1A80, 0x1A90, 0x1B50, 0x1BB0, 0x1C40, 0x1C50, 0xA620, 0xA8D0, 0xA900, 0xA9D0,
      0xA9F0, 0xAA50, 0xABF0, 0xFF10, 0x104A0, 0x10D30, 0x11066, 0x110F0, 0x11136,
      0x111D0, 0x112F0, 0x11450, 0x114D0, 0x11650, 0x116C0, 0x11730, 0x118E0, 0x11950,
      0x11C50, 0x11D50, 0x11DA0, 0x16A60, 0x16AC0, 0x16B50, 0x1D7CE, 0x1D7D8, 0x1D7E2,
      0x1D7EC, 0x1D7F6, 0x1E140, 0x1E2F0, 0x1E950, 0x1FBF0]"

definition decimal_value :: "nat \<Rightarrow> nat option" where
  "decimal_value c =
     (case filter (\<lambda>z. z \<le> c \<and> c < z + 10) decimal_zeros of
        [] \<Rightarrow> None
      | z # _ \<Rightarrow> Some (c - z))"

definition isdecimal :: "nat \<Rightarrow> bool" where
  "isdecimal c \<longleftrightarrow> decimal_value c \<noteq> None"

text \<open>
  \<open>int(s)\<close> for a string of decimal digits, the only strings the parser converts.
  Since CPython 3.11 the conversion raises \<open>ValueError\<close> when the string has more than
  \<open>sys.get_int_max_str_digits()\<close> digits (4300 unless configured; 0 switches the limit
  off). The limit is the parameter \<open>max_str_digits\<close>.
\<close>

definition digits_value :: "nat list \<Rightarrow> nat" where
  "digits_value ds = foldl (\<lambda>a d. 10 * a + d) 0 ds"

definition int_of_str :: "nat \<Rightarrow> ustring \<Rightarrow> exn + int" where
  "int_of_str max_str_digits s =
     (if 0 < max_str_digits \<and> max_str_digits < length s
      then Inl (Exn ''ValueError''
             (asc ''Exceeds the limit ('' @ str_of_nat max_str_digits @
              asc '' digits) for integer string conversion: value has '' @
              str_of_nat (length s) @
              asc '' digits; use sys.set_int_max_str_digits() to increase the limit''))
      else (case those (map decimal_value s) of
              None \<Rightarrow> Inl (Exn ''ValueError'' (asc ''invalid literal for int()''))
            | Some ds \<Rightarrow>
                if ds = [] then Inl (Exn ''ValueError'' (asc ''invalid literal for int()''))
                else Inr (int (digits_value ds))))"

text \<open>
  \<open>re.search(r'(\d+)D', line)\<close> for a literal \<open>D\<close>, the shape of the four score
  patterns; the result is group 1. At a position, \<open>\d+\<close> takes the longest run of digits
  and gives digits back one at a time until \<open>D\<close> follows; the search returns the match
  at the leftmost position that has one.
\<close>

fun match_digits :: "ustring \<Rightarrow> nat \<Rightarrow> ustring \<Rightarrow> ustring option" where
  "match_digits denom 0 s = None"
| "match_digits denom (Suc k) s =
     (if startswith (drop (Suc k) s) denom then Some (take (Suc k) s)
      else match_digits denom k s)"

definition match_score :: "ustring \<Rightarrow> ustring \<Rightarrow> ustring option" where
  "match_score denom s = match_digits denom (length (takeWhile isdecimal s)) s"

fun search_score :: "ustring \<Rightarrow> ustring \<Rightarrow> ustring option" where
  "search_score denom [] = None"
| "search_score denom (c # cs) =
     (case match_score denom (c # cs) of
        Some g \<Rightarrow> Some g
      | None \<Rightarrow> search_score denom cs)"

section \<open>Response parser\<close>

definition label_overall :: ustring where
  \<comment> \<open>the label of the overall score line, "overall score:"\<close>
  "label_overall =
     [0x603B, 0x4F53, 0x8BC4, 0x5206, 0x3A]"

definition label_grammar :: ustring where
  \<comment> \<open>the label "grammar score:"\<close>
  "label_grammar =
     [0x8BED, 0x6CD5, 0x5F97, 0x5206, 0x3A]"

definition label_vocabulary :: ustring where
  \<comment> \<open>the label "vocabulary score:"\<close>
  "label_vocabulary =
     [0x8BCD, 0x6C47, 0x5F97, 0x5206, 0x3A]"

definition label_content :: ustring where
  \<comment> \<open>the label "content score:"\<close>
  "label_content =
     [0x5185, 0x5BB9, 0x5F97, 0x5206, 0x3A]"

definition label_feedback :: ustring where
  \<comment> \<open>the label "overall evaluation:"\<close>
  "label_feedback =
     [0x603B, 0x4F53, 0x8BC4, 0x4EF7, 0x3A]"

definition label_strengths :: ustring where
  \<comment> \<open>the label "1. strengths:"\<close>
  "label_strengths =
     [0x31, 0x2E, 0x20, 0x4F18, 0x70B9, 0x3A]"

definition label_weaknesses :: ustring where
  \<comment> \<open>the label "2. points to improve:"\<close>
  "label_weaknesses =
     [0x32, 0x2E, 0x20, 0x9700, 0x8981, 0x6539, 0x8FDB, 0x7684, 0x5730, 0x65B9, 0x3A]"

definition label_suggestions :: ustring where
  \<comment> \<open>the label "3. concrete suggestions:"\<close>
  "label_suggestions =
     [0x33, 0x2E, 0x20, 0x5177, 0x4F53, 0x5EFA, 0x8BAE, 0x3A]"

text \<open>The denominators \<open>/100\<close>, \<open>/30\<close> and \<open>/40\<close> of the score patterns.\<close>

definition denom_100 :: ustring where
  "denom_100 = [0x2F, 0x31, 0x30, 0x30]"

definition denom_30 :: ustring where
  "denom_30 = [0x2F, 0x33, 0x30]"

definition denom_40 :: ustring where
  "denom_40 = [0x2F, 0x34, 0x30]"

text \<open>
  The tuple of prefixes that ends the continuation of a section: \<open>1.\<close>, \<open>2.\<close>, \<open>3.\<close>
  and the first two characters of the score and evaluation labels.
\<close>

definition reset_prefixes :: "ustring list" where
  "reset_prefixes =
     [[0x31, 0x2E], [0x32, 0x2E], [0x33, 0x2E], [0x603B, 0x4F53], [0x8BED, 0x6CD5],
      [0x8BCD, 0x6C47], [0x5185, 0x5BB9]]"

datatype section_name = Strengths | Weaknesses | Suggestions

text \<open>The dictionary \<open>result\<close> as \<open>_parse_llm_response\<close> starts with it.\<close>

definition initial_result :: rubric_result where
  "initial_result =
     \<lparr>overall_score = 0, grammar_score = 0, vocabulary_score = 0, content_score = 0,
      overall_feedback = [], strengths = [], weaknesses = [], suggestions = []\<rparr>"

text \<open>
  A score branch of the loop: when the pattern matches, the number is stored with
  \<open>store\<close>; \<open>int\<close> may raise before anything is stored.
\<close>

definition read_score ::
  "nat \<Rightarrow> ustring \<Rightarrow> ustring \<Rightarrow> (int \<Rightarrow> rubric_result) \<Rightarrow> rubric_result
   \<Rightarrow> exn + rubric_result" where
  "read_score max_str_digits denom line store result =
     (case search_score denom line of
        None \<Rightarrow> Inr result
      | Some g \<Rightarrow>
          (case int_of_str max_str_digits g of
             Inl e \<Rightarrow> Inl e
           | Inr n \<Rightarrow> Inr (store n)))"

text \<open>
  The body of the loop over the lines: the \<open>if\<close>/\<open>elif\<close> chain, in the order of the
  source, on the dictionary \<open>result\<close> and the variable \<open>current_section\<close>.
\<close>

definition parse_line ::
  "nat \<Rightarrow> ustring \<Rightarrow> rubric_result \<times> section_name option
   \<Rightarrow> exn + rubric_result \<times> section_name option" where
  "parse_line max_str_digits raw st =
     (let result = fst st; current_section = snd st; line = strip raw in
      if startswith line label_overall then
        map_sum id (\<lambda>r. (r, current_section))
          (read_score max_str_digits denom_100 line
             (\<lambda>n. result\<lparr>overall_score := n\<rparr>) result)
      else if startswith line label_grammar then
        map_sum id (\<lambda>r. (r, current_section))
          (read_score max_str_digits denom_30 line
             (\<lambda>n. result\<lparr>grammar_score := n\<rparr>) result)
      else if startswith line label_vocabulary then
        map_sum id (\<lambda>r. (r, current_section))
          (read_score max_str_digits denom_30 line
             (\<lambda>n. result\<lparr>vocabulary_score := n\<rparr>) result)
      else if startswith line label_content then
        map_sum id (\<lambda>r. (r, current_section))
          (read_score max_str_digits denom_40 line
             (\<lambda>n. result\<lparr>content_score := n\<rparr>) result)
      else if startswith line label_feedback then
        Inr (result\<lparr>overall_feedback := strip (replace line label_feedback [])\<rparr>,
             current_section)
      else if startswith line label_strengths then
        (let content = strip (replace line label_strengths [])
         in Inr (if content \<noteq> [] then result\<lparr>strengths := strengths result @ [content]\<rparr>
                 else result, Some Strengths))
      else if startswith line label_weaknesses then
        (let content = strip (replace line label_weaknesses [])
         in Inr (if content \<noteq> [] then result\<lparr>weaknesses := weaknesses result @ [content]\<rparr>
                 else result, Some Weaknesses))
      else if startswith line label_suggestions then
        (let content = strip (replace line label_suggestions [])
         in Inr (if content \<noteq> [] then result\<lparr>suggestions := suggestions result @ [content]\<rparr>
                 else result, Some Suggestions))
      else if current_section \<noteq> None \<and> line \<noteq> [] \<and> \<not> startswith_any line reset_prefixes then
        (case current_section of
           Some Strengths \<Rightarrow> Inr (result\<lparr>strengths := strengths result @ [line]\<rparr>, current_section)
         | Some Weaknesses \<Rightarrow> Inr (result\<lparr>weaknesses := weaknesses result @ [line]\<rparr>, current_section)
         | Some Suggestions \<Rightarrow> Inr (result\<lparr>suggestions := suggestions result @ [line]\<rparr>, current_section)
         | None \<Rightarrow> Inr (result, current_section))
      else if startswith_any line reset_prefixes then Inr (result, None)
      else Inr (result, current_section))"

text \<open>
  The loop. An exception leaves it at once; the state is then the one before the line
  that raised, since nothing is stored before \<open>int\<close> returns.
\<close>

fun parse_lines ::
  "nat \<Rightarrow> ustring list \<Rightarrow> rubric_result \<times> section_name option
   \<Rightarrow> exn option \<times> rubric_result \<times> section_name option" where
  "parse_lines max_str_digits [] st = (None, st)"
| "parse_lines max_str_digits (l # ls) st =
     (case parse_line max_str_digits l st of
        Inl e \<Rightarrow> (Some e, st)
      | Inr st' \<Rightarrow> parse_lines max_str_digits ls st')"

text \<open>
  \<open>_parse_llm_response\<close>: the \<open>try\<close> block is the loop, the \<open>except Exception\<close> clause
  prints the exception and falls through to \<open>return result\<close>, so the dictionary built so
  far is returned either way. An exception outside \<open>Exception\<close> would pass through the
  clause to the caller; the loop raises none (lemma \<open>parse_lines_raises_Exn\<close>).
\<close>

definition parse_llm_response :: "nat \<Rightarrow> ustring \<Rightarrow> exn + rubric_result" where
  "parse_llm_response max_str_digits response_text =
     (let lines = split_on 0xA (strip response_text)
      in case parse_lines max_str_digits lines (initial_result, None) of
           (None, st) \<Rightarrow> Inr (fst st)
         | (Some (Exn cls msg), st) \<Rightarrow> Inr (fst st)
         | (Some (BaseExn cls msg), st) \<Rightarrow> Inl (BaseExn cls msg))"

section \<open>Grammar check\<close>

text \<open>
  A match object of the grammar tool, and the tool itself: its method \<open>check\<close> returns
  the matches or raises. \<open>None\<close> stands for a tool that was not installed or failed to
  start (\<open>self.grammar_tool = None\<close>).
\<close>

record grammar_match =
  match_message :: ustring
  match_replacements :: "ustring list"
  match_context :: ustring
  match_offset :: int
  match_errorLength :: int

type_synonym grammar_tool = "(ustring \<Rightarrow> exn + grammar_match list) option"

text \<open>\<open>check_grammar\<close> returns a dictionary or a text, as \<open>return_dict\<close> says.\<close>

datatype grammar_output = GrammarDict grammar_report | GrammarText ustring

definition msg_tool_disabled :: ustring where
  \<comment> \<open>"grammar checking tool not enabled", the message of the dictionary\<close>
  "msg_tool_disabled =
     [0x8BED, 0x6CD5, 0x68C0, 0x67E5, 0x5DE5, 0x5177, 0x672A, 0x542F, 0x7528]"

definition text_tool_disabled :: ustring where
  \<comment> \<open>"grammar checking tool not enabled, please install language-tool-python"\<close>
  "text_tool_disabled =
     [0x8BED, 0x6CD5, 0x68C0, 0x67E5, 0x5DE5, 0x5177, 0x672A, 0x542F, 0x7528, 0xFF0C,
      0x8BF7, 0x5B89, 0x88C5, 0x6C, 0x61, 0x6E, 0x67, 0x75, 0x61, 0x67, 0x65, 0x2D, 0x74,
      0x6F, 0x6F, 0x6C, 0x2D, 0x70, 0x79, 0x74, 0x68, 0x6F, 0x6E]"

definition msg_no_errors :: ustring where
  \<comment> \<open>"no grammar errors found", the message of the dictionary\<close>
  "msg_no_errors =
     [0x672A, 0x53D1, 0x73B0, 0x8BED, 0x6CD5, 0x9519, 0x8BEF]"

definition text_no_errors :: ustring where
  \<comment> \<open>"no grammar errors found." with the full stop U+3002\<close>
  "text_no_errors =
     [0x672A, 0x53D1, 0x73B0, 0x8BED, 0x6CD5, 0x9519, 0x8BEF, 0x3002]"

definition msg_found :: ustring where
  \<comment> \<open>"found " before the number of matches\<close>
  "msg_found =
     [0x53D1, 0x73B0, 0x20]"

definition msg_found_errors :: ustring where
  \<comment> \<open>" grammar errors" after the number of matches\<close>
  "msg_found_errors =
     [0x20, 0x4E2A, 0x8BED, 0x6CD5, 0x9519, 0x8BEF]"

definition text_found_errors :: ustring where
  \<comment> \<open>" grammar errors:" and two line feeds\<close>
  "text_found_errors =
     [0x20, 0x4E2A, 0x8BED, 0x6CD5, 0x9519, 0x8BEF, 0x3A, 0xA, 0xA]"

definition text_suggestion :: ustring where
  \<comment> \<open>"   suggestion: "\<close>
  "text_suggestion =
     [0x20, 0x20, 0x20, 0x5EFA, 0x8BAE, 0x3A, 0x20]"

definition text_context :: ustring where
  \<comment> \<open>"   context: "\<close>
  "text_context =
     [0x20, 0x20, 0x20, 0x4E0A, 0x4E0B, 0x6587, 0x3A, 0x20]"

definition msg_check_failed :: ustring where
  \<comment> \<open>"grammar check failed: " before the text of the exception\<close>
  "msg_check_failed =
     [0x8BED, 0x6CD5, 0x68C0, 0x67E5, 0x5931, 0x8D25, 0x3A, 0x20]"

definition exn_str :: "exn \<Rightarrow> ustring" where
  "exn_str e = (case e of Exn cls msg \<Rightarrow> msg | BaseExn cls msg \<Rightarrow> msg)"

definition error_info_of :: "grammar_match \<Rightarrow> error_info" where
  "error_info_of m =
     \<lparr>err_error = match_message m,
      err_suggestion = (case match_replacements m of [] \<Rightarrow> [] | r # rs \<Rightarrow> r),
      err_context = match_context m,
      err_offset = match_offset m,
      err_length = match_errorLength m\<rparr>"

text \<open>The loop \<open>for i, error in enumerate(errors[:5], 1)\<close> of the text format.\<close>

fun render_errors :: "nat \<Rightarrow> error_info list \<Rightarrow> ustring" where
  "render_errors i [] = []"
| "render_errors i (e # es) =
     str_of_nat i @ [0x2E, 0x20] @ err_error e @ [0xA] @
     (if err_suggestion e \<noteq> [] then text_suggestion @ err_suggestion e @ [0xA] else []) @
     text_context @ err_context e @ [0xA, 0xA] @
     render_errors (Suc i) es"

text \<open>
  \<open>check_grammar\<close>. The call of the tool and the building of the result are inside
  \<open>try\<close>; the clause \<open>except Exception\<close> turns an exception into the failure message,
  and an exception outside \<open>Exception\<close> reaches the caller.
\<close>

definition check_grammar :: "grammar_tool \<Rightarrow> ustring \<Rightarrow> bool \<Rightarrow> exn + grammar_output" where
  "check_grammar tool text return_dict =
     (case tool of
        None \<Rightarrow>
          if return_dict
          then Inr (GrammarDict \<lparr>errors = [], error_count = 0, message = msg_tool_disabled\<rparr>)
          else Inr (GrammarText text_tool_disabled)
      | Some check \<Rightarrow>
          (case check text of
             Inl (BaseExn cls msg) \<Rightarrow> Inl (BaseExn cls msg)
           | Inl (Exn cls msg) \<Rightarrow>
               (let error_msg = msg_check_failed @ exn_str (Exn cls msg)
                in if return_dict
                   then Inr (GrammarDict \<lparr>errors = [], error_count = 0, message = error_msg\<rparr>)
                   else Inr (GrammarText error_msg))
           | Inr matches \<Rightarrow>
               if matches = [] then
                 (if return_dict
                  then Inr (GrammarDict \<lparr>errors = [], error_count = 0, message = msg_no_errors\<rparr>)
                  else Inr (GrammarText text_no_errors))
               else
                 (let errors1 = map error_info_of (take 10 matches)
                  in if return_dict
                     then Inr (GrammarDict
                            \<lparr>errors = errors1,
                             error_count = int (length matches),
                             message = msg_found @ str_of_nat (length matches) @ msg_found_errors\<rparr>)
                     else Inr (GrammarText
                            (msg_found @ str_of_nat (length matches) @ text_found_errors @
                             render_errors 1 (take 5 errors1))))))"

section \<open>Vocabulary analysis\<close>

definition msg_empty_text :: ustring where
  \<comment> \<open>"the text is empty"\<close>
  "msg_empty_text =
     [0x6587, 0x672C, 0x4E3A, 0x7A7A]"

definition fb_short :: ustring where
  \<comment> \<open>"the essay is rather short, consider extending it."\<close>
  "fb_short =
     [0x4F5C, 0x6587, 0x8F83, 0x77ED, 0xFF0C, 0x5EFA, 0x8BAE, 0x6269, 0x5C55, 0x5185,
      0x5BB9, 0x3002]"

definition fb_long :: ustring where
  \<comment> \<open>"the essay is rich in content, of moderate length."\<close>
  "fb_long =
     [0x4F5C, 0x6587, 0x5185, 0x5BB9, 0x4E30, 0x5BCC, 0xFF0C, 0x957F, 0x5EA6, 0x9002,
      0x4E2D, 0x3002]"

definition fb_length_ok :: ustring where
  \<comment> \<open>"the length of the essay is fine."\<close>
  "fb_length_ok =
     [0x4F5C, 0x6587, 0x957F, 0x5EA6, 0x5408, 0x9002, 0x3002]"

definition fb_repetitive :: ustring where
  \<comment> \<open>"many repeated words, use more different words."\<close>
  "fb_repetitive =
     [0x8BCD, 0x6C47, 0x91CD, 0x590D, 0x8F83, 0x591A, 0xFF0C, 0x5EFA, 0x8BAE, 0x4F7F,
      0x7528, 0x66F4, 0x591A, 0x4E0D, 0x540C, 0x7684, 0x8BCD, 0x6C47, 0x3002]"

definition fb_diverse :: ustring where
  \<comment> \<open>"the lexical diversity is very good."\<close>
  "fb_diverse =
     [0x8BCD, 0x6C47, 0x591A, 0x6837, 0x6027, 0x5F88, 0x597D, 0x3002]"

definition fb_diversity_fair :: ustring where
  \<comment> \<open>"the lexical diversity is fair and can be raised."\<close>
  "fb_diversity_fair =
     [0x8BCD, 0x6C47, 0x591A, 0x6837, 0x6027, 0x4E00, 0x822C, 0xFF0C, 0x53EF, 0x4EE5,
      0x7EE7, 0x7EED, 0x63D0, 0x9AD8, 0x3002]"

definition fb_try_advanced :: ustring where
  \<comment> \<open>"try to use more advanced words."\<close>
  "fb_try_advanced =
     [0x53EF, 0x4EE5, 0x5C1D, 0x8BD5, 0x4F7F, 0x7528, 0x66F4, 0x591A, 0x9AD8, 0x7EA7,
      0x8BCD, 0x6C47, 0x3002]"

definition fb_advanced_good :: ustring where
  \<comment> \<open>"advanced words are used well."\<close>
  "fb_advanced_good =
     [0x9AD8, 0x7EA7, 0x8BCD, 0x6C47, 0x4F7F, 0x7528, 0x826F, 0x597D, 0x3002]"

definition text_analysis_head :: ustring where
  \<comment> \<open>"vocabulary analysis:" and a line feed\<close>
  "text_analysis_head =
     [0x8BCD, 0x6C47, 0x5206, 0x6790, 0x7ED3, 0x679C, 0x3A, 0xA]"

definition text_total_words :: ustring where
  \<comment> \<open>"total words: "\<close>
  "text_total_words =
     [0x603B, 0x5355, 0x8BCD, 0x6570, 0x3A, 0x20]"

definition text_unique_words :: ustring where
  \<comment> \<open>"unique words: "\<close>
  "text_unique_words =
     [0x72EC, 0x7279, 0x5355, 0x8BCD, 0x6570, 0x3A, 0x20]"

definition text_diversity :: ustring where
  \<comment> \<open>"lexical diversity: "\<close>
  "text_diversity =
     [0x8BCD, 0x6C47, 0x591A, 0x6837, 0x6027, 0x3A, 0x20]"

definition text_advanced_ratio :: ustring where
  \<comment> \<open>"share of advanced words: "\<close>
  "text_advanced_ratio =
     [0x9AD8, 0x7EA7, 0x8BCD, 0x6C47, 0x6BD4, 0x4F8B, 0x3A, 0x20]"

definition text_most_common :: ustring where
  \<comment> \<open>"most common words:" and a line feed\<close>
  "text_most_common =
     [0x6700, 0x5E38, 0x89C1, 0x5355, 0x8BCD, 0x3A, 0xA]"

definition text_times :: ustring where
  \<comment> \<open>"times" and a line feed\<close>
  "text_times =
     [0x6B21, 0xA]"

definition text_advice :: ustring where
  \<comment> \<open>a line feed and "advice: "\<close>
  "text_advice =
     [0xA, 0x5EFA, 0x8BAE, 0x3A, 0x20]"

definition basic_words :: "ustring list" where
  "basic_words = map asc
     [''i'', ''you'', ''he'', ''she'', ''it'', ''we'', ''they'',
      ''is'', ''am'', ''are'', ''was'', ''were'', ''be'', ''been'',
      ''have'', ''has'', ''had'', ''do'', ''does'', ''did'',
      ''a'', ''an'', ''the'', ''and'', ''but'', ''or'', ''in'',
      ''on'', ''at'', ''to'', ''for'', ''of'', ''with'', ''by'']"

text \<open>
  The words of a list without repetition, in the order of their first occurrence: the
  order of the keys of a \<open>Counter\<close>. (The order of a \<open>set\<close> is not fixed, but only its
  size and the size of a difference are used.)
\<close>

definition first_occurrences :: "ustring list \<Rightarrow> ustring list" where
  "first_occurrences ws = rev (remdups (rev ws))"

text \<open>\<open>a / b\<close> for integers with \<open>b \<noteq> 0\<close>: the quotient, correctly rounded.\<close>

definition float_div :: "int \<Rightarrow> int \<Rightarrow> rat" where
  "float_div a b = round_double (of_int a / of_int b)"

text \<open>
  \<open>round(x, 3)\<close>: the decimal with three places nearest to the exact value of \<open>x\<close>
  (ties to even), then the float nearest to that decimal.
\<close>

definition round3 :: "rat \<Rightarrow> rat" where
  "round3 x = round_double (of_int (round_half_even (x * 1000)) / 1000)"

text \<open>
  The format \<open>.1%\<close> of a float that is not negative: the float product with 100, printed
  with one decimal place (ties to even on the exact value), and a percent sign.
\<close>

definition percent_1 :: "rat \<Rightarrow> ustring" where
  "percent_1 x =
     (let t = nat (round_half_even (float_mul x 100 * 10))
      in str_of_nat (t div 10) @ [0x2E] @ str_of_nat (t mod 10) @ [0x25])"

text \<open>The float literals of the feedback thresholds.\<close>

definition flt_0_4 :: rat where
  "flt_0_4 = 3602879701896397 / 9007199254740992"

definition flt_0_7 :: rat where
  "flt_0_7 = 3152519739159347 / 4503599627370496"

definition flt_0_1 :: rat where
  "flt_0_1 = 3602879701896397 / 36028797018963968"

text \<open>\<open>analyze_vocabulary\<close> returns a dictionary or a text, as \<open>return_dict\<close> says.\<close>

datatype vocabulary_output = VocabularyDict vocabulary_report | VocabularyText ustring

text \<open>The loop \<open>for word, freq in common_words[:5]\<close> of the text format.\<close>

fun render_common :: "(ustring \<times> int) list \<Rightarrow> ustring" where
  "render_common [] = []"
| "render_common ((word, freq) # ps) =
     [0x20, 0x20] @ word @ [0x3A, 0x20] @ str_of_nat (nat freq) @ text_times @ render_common ps"

text \<open>
  \<open>analyze_vocabulary\<close>. \<open>str.lower\<close> follows the Unicode tables of the interpreter
  and is the parameter \<open>lower\<close>. The divisions cannot raise: \<open>word_count\<close> is the length of
  a list that is not empty, and the second division is guarded in the source.
\<close>

definition analyze_vocabulary ::
  "(ustring \<Rightarrow> ustring) \<Rightarrow> ustring \<Rightarrow> bool \<Rightarrow> vocabulary_output" where
  "analyze_vocabulary lower text return_dict =
     (let words = map lower (filter (\<lambda>word. strip word \<noteq> []) (split_whitespace text)) in
      if words = [] then
        (if return_dict
         then VocabularyDict
                \<lparr>word_count = 0, unique_words = 0, lexical_diversity = 0,
                 advanced_ratio = None, common_words = None, feedback = msg_empty_text\<rparr>
         else VocabularyText msg_empty_text)
      else
        (let word_count1 = int (length words);
             unique_words1 = first_occurrences words;
             unique_count = int (length unique_words1);
             lexical_diversity1 = float_div unique_count word_count1;
             word_freq = map (\<lambda>w. (w, int (count_list words w))) unique_words1;
             common_words1 = take 10 (sort_key (\<lambda>p. - snd p) word_freq);
             advanced_words = filter (\<lambda>w. w \<notin> set basic_words) unique_words1;
             advanced_ratio1 =
               (if unique_count > 0 then float_div (int (length advanced_words)) unique_count
                else 0);
             feedback_parts0 = [];
             feedback_parts1 = feedback_parts0 @
               (if word_count1 < 30 then [fb_short]
                else if word_count1 > 200 then [fb_long]
                else [fb_length_ok]);
             feedback_parts2 = feedback_parts1 @
               (if lexical_diversity1 < flt_0_4 then [fb_repetitive]
                else if lexical_diversity1 > flt_0_7 then [fb_diverse]
                else [fb_diversity_fair]);
             feedback_parts3 = feedback_parts2 @
               (if advanced_ratio1 < flt_0_1 then [fb_try_advanced]
                else if advanced_ratio1 > flt_0_3 then [fb_advanced_good]
                else []);
             feedback1 = join [0x20] feedback_parts3
         in if return_dict
            then VocabularyDict
                   \<lparr>word_count = word_count1,
                    unique_words = unique_count,
                    lexical_diversity = round3 lexical_diversity1,
                    advanced_ratio = Some (round3 advanced_ratio1),
                    common_words = Some (take 5 common_words1),
                    feedback = feedback1\<rparr>
            else VocabularyText
                   (text_analysis_head @
                    text_total_words @ str_of_nat (nat word_count1) @ [0xA] @
                    text_unique_words @ str_of_nat (nat unique_count) @ [0xA] @
                    text_diversity @ percent_1 lexical_diversity1 @ [0xA] @
                    text_advanced_ratio @ percent_1 advanced_ratio1 @ [0xA, 0xA] @
                    text_most_common @
                    render_common (take 5 common_words1) @
                    text_advice @ feedback1)))"

text \<open>
  The quantities the feedback is chosen by, and the feedback string of either format.
\<close>

definition vocabulary_words :: "(ustring \<Rightarrow> ustring) \<Rightarrow> ustring \<Rightarrow> ustring list" where
  "vocabulary_words lower text =
     map lower (filter (\<lambda>word. strip word \<noteq> []) (split_whitespace text))"

definition diversity_of :: "ustring list \<Rightarrow> rat" where
  "diversity_of words =
     float_div (int (length (first_occurrences words))) (int (length words))"

definition advanced_ratio_of :: "ustring list \<Rightarrow> rat" where
  "advanced_ratio_of words =
     float_div (int (length (filter (\<lambda>w. w \<notin> set basic_words) (first_occurrences words))))
       (int (length (first_occurrences words)))"

definition vocabulary_feedback :: "(ustring \<Rightarrow> ustring) \<Rightarrow> ustring \<Rightarrow> ustring" where
  "vocabulary_feedback lower text =
     (case analyze_vocabulary lower text True of
        VocabularyDict d \<Rightarrow> feedback d
      | VocabularyText t \<Rightarrow> t)"

text \<open>
  The three choices of the specification: one sentence by the word count, one by the
  lexical diversity, and at most one by the share of advanced words. The specification
  gives the last sentence from a share of 0.3 on; \<open>advanced_sentences\<close> has the
  comparison of the source, above 0.3.
\<close>

definition length_sentence :: "int \<Rightarrow> ustring" where
  "length_sentence n = (if n < 30 then fb_short else if n > 200 then fb_long else fb_length_ok)"

definition diversity_sentence :: "rat \<Rightarrow> ustring" where
  "diversity_sentence d =
     (if d < flt_0_4 then fb_repetitive else if d > flt_0_7 then fb_diverse
      else fb_diversity_fair)"

definition advanced_sentences :: "rat \<Rightarrow> ustring list" where
  "advanced_sentences a =
     (if a < flt_0_1 then [fb_try_advanced] else if a > flt_0_3 then [fb_advanced_good]
      else [])"

text \<open>\<open>str.lower\<close> on ASCII text, where it maps the letters A to Z only.\<close>

definition ascii_lower :: "ustring \<Rightarrow> ustring" where
  "ascii_lower s = map (\<lambda>c. if 0x41 \<le> c \<and> c \<le> 0x5A then c + 0x20 else c) s"

section \<open>Grading pipeline\<close>

text \<open>
  The dictionary \<open>prompt_info\<close>, read only with \<open>get\<close>: a key may be absent. What the
  grader is built from: the grading chain (its \<open>run\<close> formats the prompt and calls the
  language model; it returns the response or raises) and the grammar tool. What the
  interpreter fixes: \<open>str.lower\<close> and the digit limit of \<open>int\<close>.
\<close>

record prompt_info =
  title :: "ustring option"
  prompt :: "ustring option"

record grader =
  grading_chain_run :: "ustring \<Rightarrow> ustring \<Rightarrow> ustring \<Rightarrow> exn + ustring"
  grammar_tool_of :: grammar_tool

record interpreter =
  str_lower :: "ustring \<Rightarrow> ustring"
  int_max_str_digits :: nat

text \<open>
  The dictionary \<open>grade_essay\<close> returns. The keys \<open>essay\<close>, \<open>prompt_title\<close> and
  \<open>vocabulary_feedback\<close> are absent from the result for an essay that is too short.
\<close>

record grading_report =
  rep_essay :: "ustring option"
  rep_prompt_title :: "ustring option"
  rep_overall_score :: int
  rep_grammar_score :: int
  rep_vocabulary_score :: int
  rep_content_score :: int
  rep_overall_feedback :: ustring
  rep_grammar_errors :: "error_info list"
  rep_vocabulary_feedback :: "ustring option"
  rep_suggestions :: "ustring list"
  rep_strengths :: "ustring list"
  rep_weaknesses :: "ustring list"
  rep_word_count :: int
  rep_character_count :: int

text \<open>The components \<open>grade_essay\<close> calls, recorded in the order of the calls.\<close>

datatype component_call = Call_grade_with_llm | Call_check_grammar | Call_analyze_vocabulary

definition empty_essay_feedback :: ustring where
  \<comment> \<open>"the essay is too short, please write with care."\<close>
  "empty_essay_feedback =
     [0x4F5C, 0x6587, 0x5185, 0x5BB9, 0x8FC7, 0x77ED, 0xFF0C, 0x8BF7, 0x8BA4, 0x771F,
      0x5199, 0x4F5C, 0x3002]"

definition empty_essay_suggestion :: ustring where
  \<comment> \<open>"please write an essay of at least 20 words."\<close>
  "empty_essay_suggestion =
     [0x8BF7, 0x5199, 0x51FA, 0x81F3, 0x5C11, 0x32, 0x30, 0x4E2A, 0x5355, 0x8BCD, 0x7684,
      0x4F5C, 0x6587, 0x3002]"

definition empty_essay_weakness :: ustring where
  \<comment> \<open>"content too short"\<close>
  "empty_essay_weakness =
     [0x5185, 0x5BB9, 0x8FC7, 0x77ED]"

definition default_feedback :: ustring where
  \<comment> \<open>"the grading system cannot give detailed feedback for now."\<close>
  "default_feedback =
     [0x6279, 0x6539, 0x7CFB, 0x7EDF, 0x6682, 0x65F6, 0x65E0, 0x6CD5, 0x63D0, 0x4F9B,
      0x8BE6, 0x7EC6, 0x53CD, 0x9988, 0x3002]"

definition default_suggestion_1 :: ustring where
  \<comment> \<open>"please check basic grammar errors"\<close>
  "default_suggestion_1 =
     [0x8BF7, 0x68C0, 0x67E5, 0x57FA, 0x672C, 0x8BED, 0x6CD5, 0x9519, 0x8BEF]"

definition default_suggestion_2 :: ustring where
  \<comment> \<open>"try to use more varied words"\<close>
  "default_suggestion_2 =
     [0x5C1D, 0x8BD5, 0x4F7F, 0x7528, 0x66F4, 0x591A, 0x6837, 0x7684, 0x8BCD, 0x6C47]"

definition default_suggestion_3 :: ustring where
  \<comment> \<open>"make sure the content keeps to the topic"\<close>
  "default_suggestion_3 =
     [0x786E, 0x4FDD, 0x5185, 0x5BB9, 0x7D27, 0x6263, 0x9898, 0x76EE, 0x8981, 0x6C42]"

definition get_empty_essay_result :: grading_report where
  "get_empty_essay_result =
     \<lparr>rep_essay = None,
      rep_prompt_title = None,
      rep_overall_score = 0,
      rep_grammar_score = 0,
      rep_vocabulary_score = 0,
      rep_content_score = 0,
      rep_overall_feedback = empty_essay_feedback,
      rep_grammar_errors = [],
      rep_vocabulary_feedback = None,
      rep_suggestions = [empty_essay_suggestion],
      rep_strengths = [],
      rep_weaknesses = [empty_essay_weakness],
      rep_word_count = 0,
      rep_character_count = 0\<rparr>"

definition get_default_grading_result :: rubric_result where
  "get_default_grading_result =
     \<lparr>overall_score = 60,
      grammar_score = 20,
      vocabulary_score = 20,
      content_score = 20,
      overall_feedback = default_feedback,
      strengths = [],
      weaknesses = [],
      suggestions = [default_suggestion_1, default_suggestion_2, default_suggestion_3]\<rparr>"

text \<open>
  \<open>_grade_with_llm\<close>: the call of the chain and the parsing are inside \<open>try\<close>; the
  clause \<open>except Exception\<close> returns the default result, and an exception outside
  \<open>Exception\<close> reaches the caller.
\<close>

definition grade_with_llm ::
  "interpreter \<Rightarrow> grader \<Rightarrow> ustring \<Rightarrow> prompt_info \<Rightarrow> exn + rubric_result" where
  "grade_with_llm py g essay info =
     (case grading_chain_run g
             (case title info of None \<Rightarrow> asc ''Essay'' | Some t \<Rightarrow> t)
             (case prompt info of None \<Rightarrow> [] | Some p \<Rightarrow> p)
             essay of
        Inl (BaseExn cls msg) \<Rightarrow> Inl (BaseExn cls msg)
      | Inl (Exn cls msg) \<Rightarrow> Inr get_default_grading_result
      | Inr response \<Rightarrow>
          (case parse_llm_response (int_max_str_digits py) response of
             Inl (BaseExn cls msg) \<Rightarrow> Inl (BaseExn cls msg)
           | Inl (Exn cls msg) \<Rightarrow> Inr get_default_grading_result
           | Inr r \<Rightarrow> Inr r))"

text \<open>
  \<open>grade_essay\<close>, with the list of the component calls it made. Nothing in it catches an
  exception: one raised by a component or by \<open>_calculate_final_scores\<close> reaches the caller.
  A component that returned a text where a dictionary is read would raise
  \<open>AttributeError\<close> at \<open>get\<close>.
\<close>

definition grade_essay ::
  "interpreter \<Rightarrow> grader \<Rightarrow> ustring \<Rightarrow> prompt_info
   \<Rightarrow> component_call list \<times> (exn + grading_report)" where
  "grade_essay py g essay info =
     (if essay = [] \<or> length (strip essay) < 10 then ([], Inr get_empty_essay_result)
      else
        (case grade_with_llm py g essay info of
           Inl e \<Rightarrow> ([Call_grade_with_llm], Inl e)
         | Inr llm_result \<Rightarrow>
        (case check_grammar (grammar_tool_of g) essay True of
           Inl e \<Rightarrow> ([Call_grade_with_llm, Call_check_grammar], Inl e)
         | Inr (GrammarText t) \<Rightarrow>
             ([Call_grade_with_llm, Call_check_grammar],
              Inl (Exn ''AttributeError'' (asc ''str object has no attribute get'')))
         | Inr (GrammarDict grammar_results) \<Rightarrow>
        (case analyze_vocabulary (str_lower py) essay True of
           VocabularyText t \<Rightarrow>
             ([Call_grade_with_llm, Call_check_grammar, Call_analyze_vocabulary],
              Inl (Exn ''AttributeError'' (asc ''str object has no attribute get'')))
         | VocabularyDict vocabulary_results \<Rightarrow>
        (case calculate_final_scores llm_result grammar_results vocabulary_results of
           Inl e \<Rightarrow> ([Call_grade_with_llm, Call_check_grammar, Call_analyze_vocabulary], Inl e)
         | Inr final_scores \<Rightarrow>
             ([Call_grade_with_llm, Call_check_grammar, Call_analyze_vocabulary],
              Inr \<lparr>rep_essay = Some essay,
                   rep_prompt_title =
                     Some (case title info of None \<Rightarrow> asc ''Unknown'' | Some t \<Rightarrow> t),
                   rep_overall_score = overall final_scores,
                   rep_grammar_score = grammar final_scores,
                   rep_vocabulary_score = vocabulary final_scores,
                   rep_content_score = content final_scores,
                   rep_overall_feedback = overall_feedback llm_result,
                   rep_grammar_errors = errors grammar_results,
                   rep_vocabulary_feedback = Some (feedback vocabulary_results),
                   rep_suggestions = suggestions llm_result,
                   rep_strengths = strengths llm_result,
                   rep_weaknesses = weaknesses llm_result,
                   rep_word_count = int (length (split_whitespace essay)),
                   rep_character_count = int (length essay)\<rparr>))))))"

text \<open>
  The eight labels the parser recognises, and the responses that have a line starting with
  one of them after trimming.
\<close>

definition all_labels :: "ustring list" where
  "all_labels =
     [label_overall, label_grammar, label_vocabulary, label_content, label_feedback,
      label_strengths, label_weaknesses, label_suggestions]"

definition has_label_line :: "ustring \<Rightarrow> bool" where
  "has_label_line response_text =
     list_ex (\<lambda>l. startswith_any (strip l) all_labels) (split_on 0xA (strip response_text))"

text \<open>Appending an entry to the list of a section.\<close>

definition add_entry :: "section_name \<Rightarrow> ustring \<Rightarrow> rubric_result \<Rightarrow> rubric_result" where
  "add_entry sec entry r =
     (case sec of
        Strengths \<Rightarrow> r\<lparr>strengths := strengths r @ [entry]\<rparr>
      | Weaknesses \<Rightarrow> r\<lparr>weaknesses := weaknesses r @ [entry]\<rparr>
      | Suggestions \<Rightarrow> r\<lparr>suggestions := suggestions r @ [entry]\<rparr>)"

text \<open>The four scores of a parsed result are not negative.\<close>

definition nonneg_scores :: "rubric_result \<Rightarrow> bool" where
  "nonneg_scores r \<longleftrightarrow>
     0 \<le> overall_score r \<and> 0 \<le> grammar_score r \<and> 0 \<le> vocabulary_score r \<and> 0 \<le> content_score r"

section \<open>Facts about the rounding\<close>

lemma pow2_powi: "pow2 e = 2 powi e"
  by (simp add: pow2_def power_int_def field_simps)

lemma pow2_pos: "0 < pow2 e"
  by (simp add: pow2_powi)

lemma pow2_add: "pow2 (a + b) = pow2 a * pow2 b"
  by (simp add: pow2_powi power_int_add)

lemma pow2_mono: "a \<le> b \<Longrightarrow> pow2 a \<le> pow2 b"
  by (simp add: pow2_powi power_int_increasing)

lemma pow2_nat: "pow2 (int k) = 2 ^ k"
  by (simp add: pow2_def)

lemma pow2_neg_nat: "pow2 (- int k) = 1 / 2 ^ k"
  by (simp add: pow2_powi power_int_minus field_simps)

lemma bitlen_nonneg: "0 \<le> bitlen n"
  by (induction n rule: bitlen.induct) (subst bitlen.simps, simp)

lemma bitlen_pos: "0 < n \<Longrightarrow> 1 \<le> bitlen n"
  using bitlen_nonneg [of "n div 2"] by (subst bitlen.simps) simp

lemma bitlen_bounds:
  "0 < n \<Longrightarrow> 2 ^ nat (bitlen n - 1) \<le> n \<and> n < 2 ^ nat (bitlen n)"
proof (induction n rule: bitlen.induct)
  case (1 n)
  show ?case
  proof (cases "n = 1")
    case True
    have "bitlen 1 = 1" by (simp add: bitlen.simps)
    with True show ?thesis by simp
  next
    case False
    with "1.prems" have h: "0 < n div 2" by simp
    from "1.IH" [OF _ h] "1.prems"
    have ih: "2 ^ nat (bitlen (n div 2) - 1) \<le> n div 2" "n div 2 < 2 ^ nat (bitlen (n div 2))"
      by simp_all
    have b: "bitlen n = 1 + bitlen (n div 2)"
      using "1.prems" by (subst bitlen.simps) simp
    have p: "1 \<le> bitlen (n div 2)" using h by (rule bitlen_pos)
    have e1: "nat (bitlen n - 1) = Suc (nat (bitlen (n div 2) - 1))"
      using b p by simp
    have e2: "nat (bitlen n) = Suc (nat (bitlen (n div 2)))"
      using b p by simp
    show ?thesis
      unfolding e1 e2 using ih by simp linarith
  qed
qed


lemma exponent_bounds:
  assumes "0 < x"
  shows "pow2 (exponent x) \<le> x \<and> x < pow2 (exponent x + 1)"
proof -
  obtain p q where pq: "quotient_of x = (p, q)" by (cases "quotient_of x")
  have q: "0 < q" using pq by (rule quotient_of_denom_pos)
  have x: "x = of_int p / of_int q" using pq by (rule quotient_of_div)
  have p: "0 < p" using assms q x by (simp add: zero_less_divide_iff)
  define bp bq where "bp = bitlen p" and "bq = bitlen q"
  have bp: "2 ^ nat (bp - 1) \<le> p" "p < 2 ^ nat bp" "1 \<le> bp"
    using bitlen_bounds [OF p] bitlen_pos [OF p] by (simp_all add: bp_def)
  have bq: "2 ^ nat (bq - 1) \<le> q" "q < 2 ^ nat bq" "1 \<le> bq"
    using bitlen_bounds [OF q] bitlen_pos [OF q] by (simp_all add: bq_def)
  have P1: "pow2 (bp - 1) \<le> of_int p"
  proof -
    have "(of_int (2 ^ nat (bp - 1)) :: rat) \<le> of_int p" using bp(1) by (simp only: of_int_le_iff)
    moreover have "pow2 (bp - 1) = 2 ^ nat (bp - 1)" using bp(3) by (simp add: pow2_def)
    ultimately show ?thesis by simp
  qed
  have P2: "of_int p < pow2 bp"
  proof -
    have "(of_int p :: rat) < of_int (2 ^ nat bp)" using bp(2) by (simp only: of_int_less_iff)
    moreover have "pow2 bp = 2 ^ nat bp" using bp(3) by (simp add: pow2_def)
    ultimately show ?thesis by simp
  qed
  have Q1: "pow2 (bq - 1) \<le> of_int q"
  proof -
    have "(of_int (2 ^ nat (bq - 1)) :: rat) \<le> of_int q" using bq(1) by (simp only: of_int_le_iff)
    moreover have "pow2 (bq - 1) = 2 ^ nat (bq - 1)" using bq(3) by (simp add: pow2_def)
    ultimately show ?thesis by simp
  qed
  have Q2: "of_int q < pow2 bq"
  proof -
    have "(of_int q :: rat) < of_int (2 ^ nat bq)" using bq(2) by (simp only: of_int_less_iff)
    moreover have "pow2 bq = 2 ^ nat bq" using bq(3) by (simp add: pow2_def)
    ultimately show ?thesis by simp
  qed
  have qr: "(0::rat) < of_int q" using q by simp
  have lo: "pow2 (bp - bq - 1) < x"
  proof -
    have "pow2 (bp - bq - 1) * of_int q < pow2 (bp - bq - 1) * pow2 bq"
      using Q2 pow2_pos by simp
    also have "\<dots> = pow2 (bp - 1)" by (simp add: pow2_add [symmetric])
    also have "\<dots> \<le> of_int p" by (rule P1)
    finally show ?thesis using qr by (simp add: x pos_less_divide_eq)
  qed
  have hi: "x < pow2 (bp - bq + 1)"
  proof -
    have "of_int p < pow2 bp" by (rule P2)
    also have "\<dots> = pow2 (bp - bq + 1) * pow2 (bq - 1)" by (simp add: pow2_add [symmetric])
    also have "\<dots> \<le> pow2 (bp - bq + 1) * of_int q"
      using Q1 pow2_pos [of "bp - bq + 1"] by simp
    finally show ?thesis using qr by (simp add: x pos_divide_less_eq)
  qed
  have e: "exponent x = (if pow2 (bp - bq) \<le> x then bp - bq else bp - bq - 1)"
    by (simp add: exponent_def pq bp_def bq_def Let_def)
  show ?thesis
  proof (cases "pow2 (bp - bq) \<le> x")
    case True
    then show ?thesis using hi by (simp add: e)
  next
    case False
    then show ?thesis using lo by (simp add: e)
  qed
qed

lemma exponent_unique:
  assumes "pow2 e \<le> x" "x < pow2 (e + 1)"
  shows "exponent x = e"
proof -
  have x: "0 < x" using assms(1) pow2_pos [of e] by simp
  note b = exponent_bounds [OF x]
  have "\<not> exponent x + 1 \<le> e"
  proof
    assume "exponent x + 1 \<le> e"
    then have "pow2 (exponent x + 1) \<le> pow2 e" by (rule pow2_mono)
    with b assms show False by simp
  qed
  moreover have "\<not> e + 1 \<le> exponent x"
  proof
    assume "e + 1 \<le> exponent x"
    then have "pow2 (e + 1) \<le> pow2 (exponent x)" by (rule pow2_mono)
    with b assms show False by simp
  qed
  ultimately show ?thesis by simp
qed

lemma round_half_even_near:
  "of_int (round_half_even x) \<le> x + 1/2 \<and> x - 1/2 \<le> of_int (round_half_even x)"
proof -
  define f where "f = \<lfloor>x\<rfloor>"
  define d where "d = x - of_int f"
  have a: "0 \<le> d" "d < 1" unfolding d_def f_def by linarith+
  have r: "round_half_even x =
      (if d < 1/2 then f else if 1/2 < d then f + 1 else if even f then f else f + 1)"
    by (simp add: round_half_even_def Let_def f_def d_def)
  have "of_int (round_half_even x) \<le> of_int f + d + 1/2 \<and>
        of_int f + d - 1/2 \<le> (of_int (round_half_even x) :: rat)"
    unfolding r using a by auto
  then show ?thesis by (simp add: d_def)
qed

lemma round_half_even_of_int [simp]: "round_half_even (of_int n) = n"
  by (simp add: round_half_even_def)


lemma round_double_normal:
  assumes "0 < x" "- 1022 \<le> exponent x"
  shows "round_double x =
         of_int (round_half_even (x * pow2 (52 - exponent x))) * pow2 (exponent x - 52)"
proof -
  have "pow2 (52 - exponent x) * pow2 (exponent x - 52) = 1"
    by (simp add: pow2_add [symmetric] pow2_def)
  then have "x / pow2 (exponent x - 52) = x * pow2 (52 - exponent x)"
    using pow2_pos [of "exponent x - 52"] by (simp add: field_simps)
  then show ?thesis
    using assms by (simp add: round_double_def Let_def max_def)
qed

lemma round_double_of_int:
  assumes "0 \<le> n" "n < 2 ^ 53"
  shows "round_double (of_int n) = of_int n"
proof (cases "n = 0")
  case True
  then show ?thesis by (simp add: round_double_def)
next
  case False
  with assms have n: "0 < n" by simp
  define x :: rat where "x = of_int n"
  define e where "e = exponent x"
  have x: "0 < x" "1 \<le> x" "x < 2 ^ 53"
  proof -
    show "0 < x" using n by (simp add: x_def)
    show "1 \<le> x" using n by (simp add: x_def)
    have "(of_int n :: rat) < of_int (2 ^ 53)" using assms(2) by (simp only: of_int_less_iff)
    then show "x < 2 ^ 53" by (simp add: x_def)
  qed
  note b = exponent_bounds [OF x(1), folded e_def]
  have e0: "0 \<le> e"
  proof (rule ccontr)
    assume "\<not> 0 \<le> e"
    then have "e + 1 \<le> 0" by simp
    then have "pow2 (e + 1) \<le> pow2 0" by (rule pow2_mono)
    with b x(2) show False by (simp add: pow2_def)
  qed
  have e52: "e \<le> 52"
  proof (rule ccontr)
    assume "\<not> e \<le> 52"
    then have "53 \<le> e" by simp
    then have "pow2 53 \<le> pow2 e" by (rule pow2_mono)
    with b x(3) show False by (simp add: pow2_def)
  qed
  have P: "pow2 (52 - e) = of_int (2 ^ nat (52 - e))"
    using e52 by (simp add: pow2_def)
  have U: "pow2 (52 - e) * pow2 (e - 52) = 1"
    by (simp add: pow2_add [symmetric] pow2_def)
  have "round_double x = of_int (round_half_even (x * pow2 (52 - e))) * pow2 (e - 52)"
    using round_double_normal [OF x(1)] e0 by (simp add: e_def)
  also have "x * pow2 (52 - e) = of_int (n * 2 ^ nat (52 - e))"
    by (simp add: x_def P)
  also have "round_half_even (of_int (n * 2 ^ nat (52 - e))) = n * 2 ^ nat (52 - e)"
    by (rule round_half_even_of_int)
  also have "of_int (n * 2 ^ nat (52 - e)) * pow2 (e - 52)
             = x * (pow2 (52 - e) * pow2 (e - 52))"
    by (simp add: x_def P)
  finally show ?thesis by (simp add: U x_def)
qed

lemma flt_0_98_eq: "flt_0_98 = 49 / 50 - 1 / (25 * 2 ^ 51)"
  by (simp add: flt_0_98_def)

lemma dampened_floor:
  assumes "0 < s" "s < 2 ^ 48"
  shows "\<lfloor>round_double (of_int s * flt_0_98)\<rfloor> = (98 * s) div 100"
proof -
  define x :: rat where "x = of_int s * flt_0_98"
  define e where "e = exponent x"
  define n where "n = (98 * s) div 100"
  define r where "r = (98 * s) mod 100"
  have s1: "(1::rat) \<le> of_int s" using assms(1) by simp
  have s48: "(of_int s :: rat) < 2 ^ 48"
  proof -
    have "(of_int s :: rat) < of_int (2 ^ 48)" using assms(2) by (simp only: of_int_less_iff)
    then show ?thesis by simp
  qed
  have c: "1 / 2 \<le> flt_0_98" "flt_0_98 < 1" by (simp_all add: flt_0_98_def)
  have xlo: "of_int s / 2 \<le> x"
    unfolding x_def using c(1) s1 by (simp add: field_simps)
  have xhi: "x < 2 ^ 48"
  proof -
    have "x \<le> of_int s" unfolding x_def using c(2) s1 by (simp add: mult_left_le)
    with s48 show ?thesis by simp
  qed
  have x0: "0 < x" using xlo s1 by simp
  note b = exponent_bounds [OF x0, folded e_def]
  have elo: "- 1 \<le> e"
  proof (rule ccontr)
    assume "\<not> - 1 \<le> e"
    then have "e + 1 \<le> - 1" by simp
    then have "pow2 (e + 1) \<le> pow2 (- 1)" by (rule pow2_mono)
    with b xlo s1 show False by (simp add: pow2_def)
  qed
  have ehi: "e \<le> 47"
  proof (rule ccontr)
    assume "\<not> e \<le> 47"
    then have "48 \<le> e" by simp
    then have "pow2 48 \<le> pow2 e" by (rule pow2_mono)
    with b xhi show False by (simp add: pow2_def)
  qed
  define K :: int where "K = 2 ^ nat (52 - e)"
  define P :: rat where "P = pow2 (52 - e)"
  define U :: rat where "U = pow2 (e - 52)"
  have PK: "P = of_int K" using ehi by (simp add: P_def K_def pow2_def)
  have P0: "0 < P" by (simp add: P_def pow2_pos)
  have U0: "0 < U" by (simp add: U_def pow2_pos)
  have PU: "P * U = 1" by (simp add: P_def U_def pow2_add [symmetric] pow2_def)
  have P32: "32 \<le> P"
  proof -
    have "pow2 5 \<le> pow2 (52 - e)" using ehi by (intro pow2_mono) simp
    then show ?thesis by (simp add: P_def pow2_def)
  qed
  have Pe: "P * pow2 (e + 1) = 2 ^ 53"
  proof -
    have "pow2 (52 - e) * pow2 (e + 1) = pow2 53" by (simp add: pow2_add [symmetric])
    then show ?thesis by (simp add: P_def pow2_def)
  qed
  define m where "m = round_half_even (x * P)"
  have rd: "round_double x = of_int m * U"
    using round_double_normal [OF x0] elo by (simp add: e_def m_def P_def U_def)
  note near = round_half_even_near [of "x * P", folded m_def]
  define d :: rat where "d = of_int s / (25 * 2 ^ 51) * P"
  have sn: "of_int s * (49 / 50) = (of_int n :: rat) + of_int r / 100"
  proof -
    have "98 * s = 100 * n + r" by (simp only: n_def r_def mult_div_mod_eq)
    then have "(of_int (98 * s) :: rat) = of_int (100 * n + r)" by (simp only:)
    then show ?thesis by (simp add: field_simps)
  qed
  have xP: "x * P = (of_int n + of_int r / 100) * P - d"
    by (simp add: x_def flt_0_98_eq d_def sn [symmetric] field_simps)
  have r0: "0 \<le> r" "r \<le> 98"
  proof -
    show "0 \<le> r" by (simp add: r_def)
    have "r < 100" by (simp add: r_def)
    moreover have "even r" by (simp add: r_def dvd_mod_iff)
    ultimately show "r \<le> 98" by (cases "r = 99") simp_all
  qed
  have rr: "(0::rat) \<le> of_int r / 100" "(of_int r :: rat) / 100 \<le> 49 / 50"
  proof -
    show "(0::rat) \<le> of_int r / 100" using r0(1) by simp
    have "(of_int r :: rat) \<le> of_int 98" using r0(2) by (simp only: of_int_le_iff)
    then show "(of_int r :: rat) / 100 \<le> 49 / 50" by simp
  qed
  have d0: "0 \<le> d" using s1 P0 by (simp add: d_def)
  have d1: "d < 1 / 2"
  proof -
    have "of_int s * P \<le> 2 * x * P" using xlo P0 by (simp add: field_simps)
    also have "\<dots> < 2 * pow2 (e + 1) * P" using b P0 by simp
    also have "\<dots> = 2 * 2 ^ 53" using Pe by (simp add: mult.commute mult.left_commute)
    finally have "of_int s * P < 2 * 2 ^ 53" .
    then show ?thesis by (simp add: d_def field_simps)
  qed
  have lo: "of_int n * P - 1 / 2 < x * P"
  proof -
    have "of_int n * P \<le> (of_int n + of_int r / 100) * P"
      using rr(1) P0 by (simp add: field_simps)
    with d1 show ?thesis unfolding xP by linarith
  qed
  have hi: "x * P \<le> (of_int n + 1) * P - 16 / 25"
  proof -
    have "(of_int n + of_int r / 100) * P \<le> (of_int n + 49 / 50) * P"
      using rr(2) P0 by simp
    also have "\<dots> = (of_int n + 1) * P - P / 50" by (simp add: field_simps)
    also have "\<dots> \<le> (of_int n + 1) * P - 16 / 25" using P32 by simp
    finally show ?thesis unfolding xP using d0 by linarith
  qed
  have mlo: "of_int n * P \<le> of_int m"
  proof -
    have "of_int (n * K) - 1 < (of_int m :: rat)"
      using lo near by (simp add: PK) 
    then have "(of_int (n * K - 1) :: rat) < of_int m" by simp
    then have "n * K - 1 < m" by (simp only: of_int_less_iff)
    then have "n * K \<le> m" by simp
    then have "(of_int (n * K) :: rat) \<le> of_int m" by (simp only: of_int_le_iff)
    then show ?thesis by (simp add: PK)
  qed
  have mhi: "of_int m < (of_int n + 1) * P"
    using hi near by linarith
  have "of_int n \<le> of_int m * U"
  proof -
    have "of_int n * P * U \<le> of_int m * U" using mlo U0 by (simp only: mult_le_cancel_right_pos)
    then show ?thesis using PU by (simp add: mult.assoc)
  qed
  moreover have "of_int m * U < of_int n + 1"
  proof -
    have "of_int m * U < (of_int n + 1) * P * U" using mhi U0 by (simp only: mult_less_cancel_right_pos)
    then show ?thesis using PU by (simp add: mult.assoc)
  qed
  ultimately have "\<lfloor>of_int m * U\<rfloor> = n" by (intro floor_unique) simp_all
  then show ?thesis by (simp add: rd [symmetric] x_def n_def)
qed

section \<open>Properties of the score reconciliation\<close>

lemma floor_rat_numeral_div [simp]:
  "\<lfloor>(numeral a :: rat) / numeral b\<rfloor> = numeral a div numeral b"
  using floor_divide_of_int_eq [of "numeral a" "numeral b", where ?'a = rat] by simp

lemma float_of_int_exact:
  assumes "0 \<le> n" "n < 2 ^ 53"
  shows "float_of_int n = Inr (of_int n)"
proof -
  have "(of_int n :: rat) < of_int (2 ^ 53)" using assms(2) by (simp only: of_int_less_iff)
  then have "\<bar>of_int n :: rat\<bar> < 2 ^ 1024" using assms(1) by simp
  then show ?thesis
    by (simp add: float_of_int_def round_double_of_int [OF assms] Let_def)
qed

lemma dampened_overall:
  assumes "0 \<le> s" "s < 2 ^ 48"
  shows "int_of_float (float_mul (of_int s) flt_0_98) = \<lfloor>(of_int s :: rat) * (98 / 100)\<rfloor>"
proof -
  have ex: "\<lfloor>(of_int s :: rat) * (98 / 100)\<rfloor> = (98 * s) div 100"
  proof -
    have "(of_int s :: rat) * (98 / 100) = of_int (98 * s) / of_int 100" by simp
    then show ?thesis by (simp only: floor_divide_of_int_eq)
  qed
  show ?thesis
  proof (cases "s = 0")
    case True
    then show ?thesis by (simp add: float_mul_def round_double_def int_of_float_def)
  next
    case False
    with assms have s: "0 < s" by simp
    have f: "\<lfloor>round_double (of_int s * flt_0_98)\<rfloor> = (98 * s) div 100"
      using s assms(2) by (rule dampened_floor)
    have "0 \<le> (98 * s) div 100" using s by simp
    then have "0 \<le> \<lfloor>round_double (of_int s * flt_0_98)\<rfloor>" by (simp only: f)
    then have "0 \<le> round_double (of_int s * flt_0_98)" by simp
    then have "int_of_float (float_mul (of_int s) flt_0_98)
               = \<lfloor>round_double (of_int s * flt_0_98)\<rfloor>"
      by (simp add: int_of_float_def float_mul_def)
    also have "\<dots> = (98 * s) div 100" by (rule f)
    also have "\<dots> = \<lfloor>(of_int s :: rat) * (98 / 100)\<rfloor>" by (rule ex [symmetric])
    finally show ?thesis .
  qed
qed

lemma calculate_final_scores_content:
  assumes "calculate_final_scores r gr vr = Inr fs"
  shows "content fs = content_score r"
  using assms
  by (auto simp: calculate_final_scores_def Let_def split: sum.splits)

lemma calculate_final_scores_overall:
  assumes "calculate_final_scores r gr vr = Inr fs"
  shows "\<exists>s. float_of_int (grammar fs + vocabulary fs + content fs) = Inr s
             \<and> overall fs = int_of_float (float_mul s flt_0_98)"
  using assms
  by (auto simp: calculate_final_scores_def Let_def split: sum.splits)

lemma calculate_final_scores_ignores_overall:
  "calculate_final_scores (r\<lparr>overall_score := v\<rparr>) gr vr = calculate_final_scores r gr vr"
  by (simp add: calculate_final_scores_def)

lemma calculate_final_scores_returns:
  assumes "0 \<le> grammar_score r" "0 \<le> vocabulary_score r" "0 \<le> content_score r"
    and "grammar_score r + vocabulary_score r + content_score r + 3 < 2 ^ 53"
  shows "\<exists>fs. calculate_final_scores r gr vr = Inr fs"
proof -
  define g where "g =
     (if error_count gr > 10 then max 0 (grammar_score r - 8)
      else if error_count gr > 5 then max 0 (grammar_score r - 5)
      else if error_count gr > 2 then max 0 (grammar_score r - 3)
      else grammar_score r)"
  define v where "v =
     (if lexical_diversity vr < flt_0_3 then max 0 (vocabulary_score r - 5)
      else if lexical_diversity vr > flt_0_6 then min 30 (vocabulary_score r + 3)
      else vocabulary_score r)"
  have g: "0 \<le> g" "g \<le> grammar_score r" using assms(1) by (auto simp: g_def)
  have v: "0 \<le> v" "v \<le> vocabulary_score r + 3" using assms(2) by (auto simp: v_def)
  have "0 \<le> g + v + content_score r" "g + v + content_score r < 2 ^ 53"
    using g v assms(3,4) by linarith+
  then have "float_of_int (g + v + content_score r) = Inr (of_int (g + v + content_score r))"
    by (rule float_of_int_exact)
  then show ?thesis
    by (simp add: calculate_final_scores_def Let_def g_def v_def)
qed

text \<open>
  The product that decides the first input on which the float product and the exact
  product differ: \<open>287219363990501 * 0.98\<close> lies in \<open>[2^48, 2^49)\<close>, where
  neighbouring floats are \<open>1/16\<close> apart, and rounds up to an integer.
\<close>

lemma big_product:
  "int_of_float (float_mul 287219363990501 flt_0_98) = 281474976710691"
proof -
  define x :: rat where "x = 287219363990501 * flt_0_98"
  have e: "exponent x = 48"
    by (rule exponent_unique) (simp_all add: x_def flt_0_98_def pow2_def)
  have x0: "0 < x" by (simp add: x_def flt_0_98_def)
  have rd: "round_double x = of_int (round_half_even (x * pow2 4)) * pow2 (- 4)"
    using round_double_normal [OF x0] by (simp add: e)
  have y: "x * pow2 4 = 633825300114193457217059753043 / 140737488355328"
    by (simp add: x_def flt_0_98_def pow2_def)
  have m: "round_half_even (633825300114193457217059753043 / 140737488355328)
           = 4503599627371056"
    by (simp add: round_half_even_def Let_def)
  have "round_double x = 281474976710691"
    unfolding rd y m by (simp add: pow2_def)
  then show ?thesis by (simp add: float_mul_def int_of_float_def x_def)
qed

lemma calculate_final_scores_grammar:
  assumes "calculate_final_scores r gr vr = Inr fs"
  shows "grammar fs =
     (if error_count gr > 10 then max 0 (grammar_score r - 8)
      else if error_count gr > 5 then max 0 (grammar_score r - 5)
      else if error_count gr > 2 then max 0 (grammar_score r - 3)
      else grammar_score r)"
  using assms
  by (auto simp: calculate_final_scores_def Let_def split: sum.splits)

lemma calculate_final_scores_vocabulary:
  assumes "calculate_final_scores r gr vr = Inr fs"
  shows "vocabulary fs =
     (if lexical_diversity vr < flt_0_3 then max 0 (vocabulary_score r - 5)
      else if lexical_diversity vr > flt_0_6 then min 30 (vocabulary_score r + 3)
      else vocabulary_score r)"
  using assms
  by (auto simp: calculate_final_scores_def Let_def split: sum.splits)

text \<open>
  Below \<open>2^1024 - 2^970\<close> in absolute value an integer rounds to a finite float, so the
  conversion returns; the reconciliation returns for all rubric scores in that range.
\<close>

lemma round_half_even_nonneg: "0 \<le> x \<Longrightarrow> 0 \<le> round_half_even x"
proof -
  assume "0 \<le> x"
  then have "- 1 < (of_int (round_half_even x) :: rat)"
    using round_half_even_near [of x] by linarith
  then have "(of_int (- 1) :: rat) < of_int (round_half_even x)" by simp
  then have "- 1 < round_half_even x" by (simp only: of_int_less_iff)
  then show ?thesis by simp
qed

lemma round_double_nonneg: "0 \<le> x \<Longrightarrow> 0 \<le> round_double x"
proof -
  assume x: "0 \<le> x"
  show ?thesis
  proof (cases "x = 0")
    case True
    then show ?thesis by (simp add: round_double_def)
  next
    case False
    with x have p: "0 < x" by simp
    define u where "u = pow2 (max (exponent \<bar>x\<bar>) (- 1022) - 52)"
    have u: "0 < u" by (simp add: u_def pow2_pos)
    have "0 \<le> \<bar>x\<bar> / u" using u by simp
    then have "0 \<le> round_half_even (\<bar>x\<bar> / u)" by (rule round_half_even_nonneg)
    then have "0 \<le> (of_int (round_half_even (\<bar>x\<bar> / u)) :: rat) * u" using u by simp
    then show ?thesis using p by (simp add: round_double_def Let_def u_def)
  qed
qed

lemma round_double_minus: "round_double (- x) = - round_double x"
  by (simp add: round_double_def Let_def)

lemma round_double_abs: "\<bar>round_double x\<bar> = round_double \<bar>x\<bar>"
proof (cases "0 \<le> x")
  case True
  then show ?thesis using round_double_nonneg [of x] by simp
next
  case False
  then have n: "0 \<le> - x" by simp
  have "\<bar>round_double x\<bar> = \<bar>round_double (- x)\<bar>" by (simp add: round_double_minus)
  also have "\<dots> = round_double (- x)" using round_double_nonneg [OF n] by simp
  finally show ?thesis using False by simp
qed

lemma round_double_below_max:
  assumes "1 \<le> x" "x < 2 ^ 1024 - 2 ^ 970"
  shows "round_double x < 2 ^ 1024"
proof -
  define e where "e = exponent x"
  have x0: "0 < x" using assms(1) by simp
  note b = exponent_bounds [OF x0, folded e_def]
  have e0: "0 \<le> e"
  proof (rule ccontr)
    assume "\<not> 0 \<le> e"
    then have "e + 1 \<le> 0" by simp
    then have "pow2 (e + 1) \<le> pow2 0" by (rule pow2_mono)
    with b assms(1) show False by (simp add: pow2_def)
  qed
  have e1: "e \<le> 1023"
  proof (rule ccontr)
    assume "\<not> e \<le> 1023"
    then have "1024 \<le> e" by simp
    then have "pow2 1024 \<le> pow2 e" by (rule pow2_mono)
    with b assms(2) show False by (simp add: pow2_def)
  qed
  define m where "m = round_half_even (x * pow2 (52 - e))"
  have rd: "round_double x = of_int m * pow2 (e - 52)"
    using round_double_normal [OF x0] e0 by (simp add: e_def m_def)
  have near: "of_int m \<le> x * pow2 (52 - e) + 1 / 2"
    using round_half_even_near [of "x * pow2 (52 - e)"] by (simp add: m_def)
  have U: "0 < pow2 (e - 52)" by (rule pow2_pos)
  show ?thesis
  proof (cases "e \<le> 1022")
    case True
    have "x * pow2 (52 - e) < pow2 (e + 1) * pow2 (52 - e)"
      using b pow2_pos [of "52 - e"] by simp
    also have "\<dots> = pow2 53" by (simp add: pow2_add [symmetric])
    finally have "x * pow2 (52 - e) < 2 ^ 53" by (simp add: pow2_def)
    with near have "(of_int m :: rat) < of_int (2 ^ 53 + 1)" by simp
    then have "m < 2 ^ 53 + 1" by (simp only: of_int_less_iff)
    then have "m \<le> 2 ^ 53" by simp
    then have "(of_int m :: rat) \<le> of_int (2 ^ 53)" by (simp only: of_int_le_iff)
    then have "(of_int m :: rat) \<le> pow2 53" by (simp add: pow2_def)
    then have "of_int m * pow2 (e - 52) \<le> pow2 53 * pow2 (e - 52)"
      using U by (simp only: mult_le_cancel_right_pos)
    also have "\<dots> = pow2 (e + 1)" by (simp add: pow2_add [symmetric] add.commute)
    also have "\<dots> \<le> pow2 1023" using True by (intro pow2_mono) simp
    also have "\<dots> < 2 ^ 1024" by (simp add: pow2_def)
    finally show ?thesis by (simp add: rd)
  next
    case False
    with e1 have e: "e = 1023" by simp
    have "x * pow2 (- 971) < (2 ^ 1024 - 2 ^ 970) * pow2 (- 971)"
      using assms(2) pow2_pos [of "- 971"] by (simp only: mult_less_cancel_right_pos)
    also have "\<dots> = 2 ^ 53 - 1 / 2" by (simp add: pow2_def)
    finally have "x * pow2 (52 - e) < 2 ^ 53 - 1 / 2" by (simp add: e)
    with near have "(of_int m :: rat) < of_int (2 ^ 53)" by simp
    then have "m < 2 ^ 53" by (simp only: of_int_less_iff)
    then have "m \<le> 2 ^ 53 - 1" by simp
    then have "(of_int m :: rat) \<le> of_int (2 ^ 53 - 1)" by (simp only: of_int_le_iff)
    then have "of_int m * pow2 (e - 52) \<le> of_int (2 ^ 53 - 1) * pow2 (e - 52)"
      using U by (simp only: mult_le_cancel_right_pos)
    also have "\<dots> < 2 ^ 1024" by (simp add: e pow2_def)
    finally show ?thesis by (simp add: rd)
  qed
qed

lemma float_of_int_returns:
  assumes "\<bar>n\<bar> < 2 ^ 1024 - 2 ^ 970"
  shows "float_of_int n = Inr (round_double (of_int n))"
proof -
  have "round_double \<bar>of_int n :: rat\<bar> < 2 ^ 1024"
  proof (cases "n = 0")
    case True
    then show ?thesis by (simp add: round_double_def)
  next
    case False
    then have "1 \<le> \<bar>n\<bar>" by simp
    then have "(of_int 1 :: rat) \<le> of_int \<bar>n\<bar>" by (simp only: of_int_le_iff)
    then have a: "(1 :: rat) \<le> \<bar>of_int n\<bar>" by simp
    have "(of_int \<bar>n\<bar> :: rat) < of_int (2 ^ 1024 - 2 ^ 970)"
      using assms by (simp only: of_int_less_iff)
    then have "\<bar>of_int n :: rat\<bar> < 2 ^ 1024 - 2 ^ 970" by simp
    with a show ?thesis by (rule round_double_below_max)
  qed
  then have "\<bar>round_double (of_int n)\<bar> < (2 ^ 1024 :: rat)"
    by (simp only: round_double_abs)
  then show ?thesis by (simp add: float_of_int_def Let_def)
qed

lemma calculate_final_scores_total:
  assumes "\<bar>grammar_score r\<bar> + \<bar>vocabulary_score r\<bar> + \<bar>content_score r\<bar> + 3 < 2 ^ 1024 - 2 ^ 970"
  shows "\<exists>fs. calculate_final_scores r gr vr = Inr fs"
proof -
  define g where "g =
     (if error_count gr > 10 then max 0 (grammar_score r - 8)
      else if error_count gr > 5 then max 0 (grammar_score r - 5)
      else if error_count gr > 2 then max 0 (grammar_score r - 3)
      else grammar_score r)"
  define v where "v =
     (if lexical_diversity vr < flt_0_3 then max 0 (vocabulary_score r - 5)
      else if lexical_diversity vr > flt_0_6 then min 30 (vocabulary_score r + 3)
      else vocabulary_score r)"
  have g: "\<bar>g\<bar> \<le> \<bar>grammar_score r\<bar>" by (auto simp: g_def)
  have v: "\<bar>v\<bar> \<le> \<bar>vocabulary_score r\<bar> + 3" by (auto simp: v_def)
  have "\<bar>g + v + content_score r\<bar> < 2 ^ 1024 - 2 ^ 970"
    using g v assms by linarith
  then have "float_of_int (g + v + content_score r)
             = Inr (round_double (of_int (g + v + content_score r)))"
    by (rule float_of_int_returns)
  then show ?thesis
    by (simp add: calculate_final_scores_def Let_def g_def v_def)
qed

text \<open>
  The exception of the reconciliation is not a dead branch: a content score of \<open>2^1024\<close>
  (309 digits, below the digit limit of \<open>int\<close>) cannot be converted to a float.
\<close>

lemma float_of_int_overflow:
  "float_of_int (2 ^ 1024)
   = Inl (Exn ''OverflowError'' (asc ''int too large to convert to float''))"
proof -
  define x :: rat where "x = 2 ^ 1024"
  have e: "exponent x = 1024"
    by (rule exponent_unique) (simp_all add: x_def pow2_def)
  have x0: "0 < x" by (simp add: x_def)
  have rd: "round_double x = of_int (round_half_even (x * pow2 (- 972))) * pow2 972"
    using round_double_normal [OF x0] by (simp add: e)
  have y: "x * pow2 (- 972) = of_int (2 ^ 52)"
    by (simp add: x_def pow2_def)
  have "round_double x = 2 ^ 1024"
    unfolding rd y round_half_even_of_int by (simp add: pow2_def)
  then show ?thesis
    by (simp add: float_of_int_def x_def Let_def)
qed

lemma calculate_final_scores_raises:
  "calculate_final_scores
     \<lparr>overall_score = 0, grammar_score = 0, vocabulary_score = 0, content_score = 2 ^ 1024,
      overall_feedback = [], strengths = [], weaknesses = [], suggestions = []\<rparr>
     \<lparr>errors = [], error_count = 0, message = []\<rparr>
     \<lparr>word_count = 12, unique_words = 6, lexical_diversity = 1 / 2,
      advanced_ratio = None, common_words = None, feedback = []\<rparr>
   = Inl (Exn ''OverflowError'' (asc ''int too large to convert to float''))"
  using float_of_int_overflow
  by (simp add: calculate_final_scores_def Let_def flt_0_3_def flt_0_6_def)

subsection \<open>C1: the overall score\<close>

text \<open>
  C1, as stated, fails: the overall score is computed in binary64, and for a content score
  of 287219363990501 (a score line \<open>287219363990501/40\<close> of the response is accepted by
  the parser) with grammar and vocabulary 0 the code returns 281474976710691, while
  \<open>floor (287219363990501 * 0.98)\<close> in exact arithmetic is 281474976710690.
\<close>

theorem overall_exact_floor_counterexample:
  "calculate_final_scores
     \<lparr>overall_score = 0, grammar_score = 0, vocabulary_score = 0,
      content_score = 287219363990501,
      overall_feedback = [], strengths = [], weaknesses = [], suggestions = []\<rparr>
     \<lparr>errors = [], error_count = 0, message = []\<rparr>
     \<lparr>word_count = 12, unique_words = 6, lexical_diversity = 1 / 2,
      advanced_ratio = None, common_words = None, feedback = []\<rparr>
   = Inr \<lparr>overall = 281474976710691, grammar = 0, vocabulary = 0,
          content = 287219363990501\<rparr>
   \<and> \<lfloor>(of_int (0 + 0 + 287219363990501) :: rat) * (98 / 100)\<rfloor> = 281474976710690"
  by (simp add: calculate_final_scores_def Let_def float_of_int_exact flt_0_3_def flt_0_6_def
        big_product)

text \<open>
  C1, amended: for all reconciled scores \<open>g\<close>, \<open>v\<close>, \<open>c\<close> with
  \<open>0 \<le> g + v + c < 2^48\<close> (every sum of scores inside the rubric ranges is at most 100)
  the overall score returned is \<open>floor ((g + v + c) * 0.98)\<close> in exact arithmetic,
  whatever overall score was parsed from the model response.
\<close>

theorem overall_dampened_sum:
  assumes "calculate_final_scores r gr vr = Inr fs"
    and "0 \<le> grammar fs + vocabulary fs + content fs"
    and "grammar fs + vocabulary fs + content fs < 2 ^ 48"
  shows "overall fs = \<lfloor>(of_int (grammar fs + vocabulary fs + content fs) :: rat) * (98 / 100)\<rfloor>
       \<and> calculate_final_scores (r\<lparr>overall_score := parsed\<rparr>) gr vr = Inr fs"
proof -
  define s where "s = grammar fs + vocabulary fs + content fs"
  obtain x where x: "float_of_int s = Inr x" "overall fs = int_of_float (float_mul x flt_0_98)"
    using calculate_final_scores_overall [OF assms(1)] by (auto simp: s_def)
  have "s < 2 ^ 53" using assms(3) by (simp add: s_def)
  then have "float_of_int s = Inr (of_int s)"
    using assms(2) by (intro float_of_int_exact) (simp_all add: s_def)
  with x have "overall fs = int_of_float (float_mul (of_int s) flt_0_98)" by simp
  also have "\<dots> = \<lfloor>(of_int s :: rat) * (98 / 100)\<rfloor>"
    using assms(2,3) by (intro dampened_overall) (simp_all add: s_def)
  finally show ?thesis
    using assms(1) by (simp add: s_def calculate_final_scores_ignores_overall)
qed

theorem overall_dampened_sum_witness:
  "calculate_final_scores
     \<lparr>overall_score = 70, grammar_score = 20, vocabulary_score = 20, content_score = 30,
      overall_feedback = [], strengths = [], weaknesses = [], suggestions = []\<rparr>
     \<lparr>errors = [], error_count = 3, message = []\<rparr>
     \<lparr>word_count = 12, unique_words = 6, lexical_diversity = 1 / 2,
      advanced_ratio = None, common_words = None, feedback = []\<rparr>
   = Inr \<lparr>overall = 65, grammar = 17, vocabulary = 20, content = 30\<rparr>
   \<and> (0::int) \<le> 17 + 20 + 30 \<and> (17::int) + 20 + 30 < 2 ^ 48
   \<and> (65::int) = \<lfloor>(of_int (17 + 20 + 30) :: rat) * (98 / 100)\<rfloor>
   \<and> calculate_final_scores
     \<lparr>overall_score = 0, grammar_score = 20, vocabulary_score = 20, content_score = 30,
      overall_feedback = [], strengths = [], weaknesses = [], suggestions = []\<rparr>
     \<lparr>errors = [], error_count = 3, message = []\<rparr>
     \<lparr>word_count = 12, unique_words = 6, lexical_diversity = 1 / 2,
      advanced_ratio = None, common_words = None, feedback = []\<rparr>
   = Inr \<lparr>overall = 65, grammar = 17, vocabulary = 20, content = 30\<rparr>"
proof -
  have h: "calculate_final_scores
     \<lparr>overall_score = 70, grammar_score = 20, vocabulary_score = 20, content_score = 30,
      overall_feedback = [], strengths = [], weaknesses = [], suggestions = []\<rparr>
     \<lparr>errors = [], error_count = 3, message = []\<rparr>
     \<lparr>word_count = 12, unique_words = 6, lexical_diversity = 1 / 2,
      advanced_ratio = None, common_words = None, feedback = []\<rparr>
   = Inr \<lparr>overall = 65, grammar = 17, vocabulary = 20, content = 30\<rparr>"
    by (simp add: calculate_final_scores_def Let_def float_of_int_exact flt_0_3_def
          flt_0_6_def dampened_overall [of 67, simplified])
  show ?thesis
    using h overall_dampened_sum [OF h, of 0] by simp
qed

subsection \<open>C2: the grammar penalty\<close>

text \<open>
  C2, as stated, fails for a score outside the range of the floats: for a rubric grammar
  score of \<open>2^1024\<close> (309 digits; the parser accepts a score line with it) and no grammar
  errors the reconciliation raises \<open>OverflowError\<close> and returns no grammar score.
\<close>

theorem grammar_penalty_overflow_counterexample:
  "(0::int) \<le> 2 ^ 1024 \<and> (0::int) \<le> 0
   \<and> calculate_final_scores
     \<lparr>overall_score = 0, grammar_score = 2 ^ 1024, vocabulary_score = 0, content_score = 0,
      overall_feedback = [], strengths = [], weaknesses = [], suggestions = []\<rparr>
     \<lparr>errors = [], error_count = 0, message = []\<rparr>
     \<lparr>word_count = 12, unique_words = 6, lexical_diversity = 1 / 2,
      advanced_ratio = None, common_words = None, feedback = []\<rparr>
     = Inl (Exn ''OverflowError'' (asc ''int too large to convert to float''))"
  using float_of_int_overflow
  by (simp add: calculate_final_scores_def Let_def flt_0_3_def flt_0_6_def)

text \<open>
  C2, amended: for a rubric grammar score \<open>g \<ge> 0\<close> and a grammar error count \<open>c \<ge> 0\<close>,
  with rubric scores inside the range of the floats (the absolute values of the grammar,
  vocabulary and content scores and 3 sum to less than \<open>2^1024 - 2^970\<close>, as for all
  scores of at most 307 digits), the reconciliation returns, and the reconciled grammar
  score is \<open>max 0 (g - p)\<close>, where the penalty \<open>p\<close> is 8 if \<open>c > 10\<close>, else 5 if
  \<open>c > 5\<close>, else 3 if \<open>c > 2\<close>, else 0; so 30 with 11 errors gives 22, and with 0, 1
  or 2 errors the score is unchanged.
\<close>

theorem grammar_penalty_applied:
  assumes "0 \<le> grammar_score r" "0 \<le> error_count gr"
    and "\<bar>grammar_score r\<bar> + \<bar>vocabulary_score r\<bar> + \<bar>content_score r\<bar> + 3 < 2 ^ 1024 - 2 ^ 970"
  shows "\<exists>fs. calculate_final_scores r gr vr = Inr fs
       \<and> grammar fs = max 0 (grammar_score r - grammar_penalty (error_count gr))
       \<and> (grammar_score r = 30 \<and> error_count gr = 11 \<longrightarrow> grammar fs = 22)
       \<and> (error_count gr \<in> {0, 1, 2} \<longrightarrow> grammar fs = grammar_score r)"
proof -
  obtain fs where fs: "calculate_final_scores r gr vr = Inr fs"
    using calculate_final_scores_total [OF assms(3)] by blast
  show ?thesis
    using assms(1,2) fs calculate_final_scores_grammar [OF fs]
    by (auto simp: grammar_penalty_def)
qed

theorem grammar_penalty_applied_witness:
  "(0::int) \<le> 30 \<and> (0::int) \<le> 11
   \<and> \<bar>30::int\<bar> + \<bar>20\<bar> + \<bar>30\<bar> + 3 < 2 ^ 1024 - 2 ^ 970
   \<and> calculate_final_scores
     \<lparr>overall_score = 85, grammar_score = 30, vocabulary_score = 20, content_score = 30,
      overall_feedback = [], strengths = [], weaknesses = [], suggestions = []\<rparr>
     \<lparr>errors = [], error_count = 11, message = []\<rparr>
     \<lparr>word_count = 12, unique_words = 6, lexical_diversity = 1 / 2,
      advanced_ratio = None, common_words = None, feedback = []\<rparr>
     = Inr \<lparr>overall = 70, grammar = 22, vocabulary = 20, content = 30\<rparr>
   \<and> (22::int) = max 0 (30 - grammar_penalty 11)
   \<and> (0::int) \<le> 2
   \<and> calculate_final_scores
     \<lparr>overall_score = 85, grammar_score = 30, vocabulary_score = 20, content_score = 30,
      overall_feedback = [], strengths = [], weaknesses = [], suggestions = []\<rparr>
     \<lparr>errors = [], error_count = 2, message = []\<rparr>
     \<lparr>word_count = 12, unique_words = 6, lexical_diversity = 1 / 2,
      advanced_ratio = None, common_words = None, feedback = []\<rparr>
     = Inr \<lparr>overall = 78, grammar = 30, vocabulary = 20, content = 30\<rparr>
   \<and> (2::int) \<in> {0, 1, 2}"
proof -
  have h1: "calculate_final_scores
     \<lparr>overall_score = 85, grammar_score = 30, vocabulary_score = 20, content_score = 30,
      overall_feedback = [], strengths = [], weaknesses = [], suggestions = []\<rparr>
     \<lparr>errors = [], error_count = 11, message = []\<rparr>
     \<lparr>word_count = 12, unique_words = 6, lexical_diversity = 1 / 2,
      advanced_ratio = None, common_words = None, feedback = []\<rparr>
     = Inr \<lparr>overall = 70, grammar = 22, vocabulary = 20, content = 30\<rparr>"
    by (simp add: calculate_final_scores_def Let_def float_of_int_exact flt_0_3_def
          flt_0_6_def dampened_overall [of 72, simplified])
  have h2: "calculate_final_scores
     \<lparr>overall_score = 85, grammar_score = 30, vocabulary_score = 20, content_score = 30,
      overall_feedback = [], strengths = [], weaknesses = [], suggestions = []\<rparr>
     \<lparr>errors = [], error_count = 2, message = []\<rparr>
     \<lparr>word_count = 12, unique_words = 6, lexical_diversity = 1 / 2,
      advanced_ratio = None, common_words = None, feedback = []\<rparr>
     = Inr \<lparr>overall = 78, grammar = 30, vocabulary = 20, content = 30\<rparr>"
    by (simp add: calculate_final_scores_def Let_def float_of_int_exact flt_0_3_def
          flt_0_6_def dampened_overall [of 80, simplified])
  show ?thesis
    using h1 h2
      grammar_penalty_applied [of "\<lparr>overall_score = 85, grammar_score = 30, vocabulary_score = 20, content_score = 30,
      overall_feedback = [], strengths = [], weaknesses = [], suggestions = []\<rparr>"
        "\<lparr>errors = [], error_count = 11, message = []\<rparr>"
        "\<lparr>word_count = 12, unique_words = 6, lexical_diversity = 1 / 2,
      advanced_ratio = None, common_words = None, feedback = []\<rparr>"]
      grammar_penalty_applied [of "\<lparr>overall_score = 85, grammar_score = 30, vocabulary_score = 20, content_score = 30,
      overall_feedback = [], strengths = [], weaknesses = [], suggestions = []\<rparr>"
        "\<lparr>errors = [], error_count = 2, message = []\<rparr>"
        "\<lparr>word_count = 12, unique_words = 6, lexical_diversity = 1 / 2,
      advanced_ratio = None, common_words = None, feedback = []\<rparr>"]
    by (simp add: grammar_penalty_def)
qed

subsection \<open>C3: the vocabulary adjustment\<close>

text \<open>
  C3, as stated, fails twice. For a rubric vocabulary score below 5 and a diversity below
  0.3 the score is floored: 2 with diversity 0.25 is reconciled to 0, not to \<open>2 - 5\<close>. And
  for a score outside the range of the floats, \<open>2^1024\<close>, the reconciliation raises
  \<open>OverflowError\<close> and returns no vocabulary score.
\<close>

theorem vocabulary_minus_five_counterexample:
  "calculate_final_scores
     \<lparr>overall_score = 0, grammar_score = 0, vocabulary_score = 2, content_score = 0,
      overall_feedback = [], strengths = [], weaknesses = [], suggestions = []\<rparr>
     \<lparr>errors = [], error_count = 0, message = []\<rparr>
     \<lparr>word_count = 12, unique_words = 3, lexical_diversity = 1 / 4,
      advanced_ratio = None, common_words = None, feedback = []\<rparr>
   = Inr \<lparr>overall = 0, grammar = 0, vocabulary = 0, content = 0\<rparr>
   \<and> (1 / 4 :: rat) < flt_0_3 \<and> (0::int) \<noteq> 2 - 5
   \<and> calculate_final_scores
     \<lparr>overall_score = 0, grammar_score = 0, vocabulary_score = 2 ^ 1024, content_score = 0,
      overall_feedback = [], strengths = [], weaknesses = [], suggestions = []\<rparr>
     \<lparr>errors = [], error_count = 0, message = []\<rparr>
     \<lparr>word_count = 12, unique_words = 6, lexical_diversity = 1 / 2,
      advanced_ratio = None, common_words = None, feedback = []\<rparr>
   = Inl (Exn ''OverflowError'' (asc ''int too large to convert to float''))"
  using float_of_int_overflow
  by (simp add: calculate_final_scores_def Let_def float_of_int_exact flt_0_3_def flt_0_6_def
        dampened_overall [of 0, simplified])

text \<open>
  C3, amended: for every rubric vocabulary score \<open>v\<close> and lexical diversity \<open>d\<close>, with
  rubric scores inside the range of the floats (the absolute values of the grammar,
  vocabulary and content scores and 3 sum to less than \<open>2^1024 - 2^970\<close>), the
  reconciliation returns, and the reconciled vocabulary score is \<open>max 0 (v - 5)\<close> when the
  diversity is below 0.3, \<open>min 30 (v + 3)\<close> when it is above 0.6 (so 29 gives 30, not
  32), and \<open>v\<close> otherwise. The comparisons are the source's, against the floats \<open>0.3\<close>
  and \<open>0.6\<close>.
\<close>

theorem vocabulary_adjustment:
  assumes "\<bar>grammar_score r\<bar> + \<bar>vocabulary_score r\<bar> + \<bar>content_score r\<bar> + 3 < 2 ^ 1024 - 2 ^ 970"
  shows "\<exists>fs. calculate_final_scores r gr vr = Inr fs
       \<and> vocabulary fs =
           (if lexical_diversity vr < flt_0_3 then max 0 (vocabulary_score r - 5)
            else if lexical_diversity vr > flt_0_6 then min 30 (vocabulary_score r + 3)
            else vocabulary_score r)"
proof -
  obtain fs where fs: "calculate_final_scores r gr vr = Inr fs"
    using calculate_final_scores_total [OF assms] by blast
  show ?thesis
    using fs calculate_final_scores_vocabulary [OF fs] by blast
qed

theorem vocabulary_adjustment_witness:
  "\<bar>20::int\<bar> + \<bar>29\<bar> + \<bar>30\<bar> + 3 < 2 ^ 1024 - 2 ^ 970
   \<and> calculate_final_scores
     \<lparr>overall_score = 0, grammar_score = 20, vocabulary_score = 29, content_score = 30,
      overall_feedback = [], strengths = [], weaknesses = [], suggestions = []\<rparr>
     \<lparr>errors = [], error_count = 0, message = []\<rparr>
     \<lparr>word_count = 4, unique_words = 3, lexical_diversity = 3 / 4,
      advanced_ratio = None, common_words = None, feedback = []\<rparr>
   = Inr \<lparr>overall = 78, grammar = 20, vocabulary = 30, content = 30\<rparr>
   \<and> (30::int) = (if (3 / 4 :: rat) < flt_0_3 then max 0 (29 - 5)
                    else if 3 / 4 > flt_0_6 then min 30 (29 + 3) else 29)"
proof -
  have h: "calculate_final_scores
     \<lparr>overall_score = 0, grammar_score = 20, vocabulary_score = 29, content_score = 30,
      overall_feedback = [], strengths = [], weaknesses = [], suggestions = []\<rparr>
     \<lparr>errors = [], error_count = 0, message = []\<rparr>
     \<lparr>word_count = 4, unique_words = 3, lexical_diversity = 3 / 4,
      advanced_ratio = None, common_words = None, feedback = []\<rparr>
   = Inr \<lparr>overall = 78, grammar = 20, vocabulary = 30, content = 30\<rparr>"
    by (simp add: calculate_final_scores_def Let_def float_of_int_exact flt_0_3_def
          flt_0_6_def dampened_overall [of 80, simplified])
  show ?thesis
    using h vocabulary_adjustment [of "\<lparr>overall_score = 0, grammar_score = 20, vocabulary_score = 29, content_score = 30,
      overall_feedback = [], strengths = [], weaknesses = [], suggestions = []\<rparr>"
        "\<lparr>errors = [], error_count = 0, message = []\<rparr>"
        "\<lparr>word_count = 4, unique_words = 3, lexical_diversity = 3 / 4,
      advanced_ratio = None, common_words = None, feedback = []\<rparr>"]
    by (simp add: flt_0_3_def flt_0_6_def)
qed

subsection \<open>C10: the vocabulary score is never negative\<close>

text \<open>
  C10, as stated, fails for a score outside the range of the floats: for a rubric
  vocabulary score of \<open>2^1024 + 5\<close> and a diversity of 0.25 the reconciliation raises
  \<open>OverflowError\<close> and produces no vocabulary score.
\<close>

theorem vocabulary_floor_overflow_counterexample:
  "(0::int) \<le> 2 ^ 1024 + 5 \<and> (1 / 4 :: rat) < flt_0_3
   \<and> calculate_final_scores
     \<lparr>overall_score = 0, grammar_score = 0, vocabulary_score = 2 ^ 1024 + 5, content_score = 0,
      overall_feedback = [], strengths = [], weaknesses = [], suggestions = []\<rparr>
     \<lparr>errors = [], error_count = 0, message = []\<rparr>
     \<lparr>word_count = 12, unique_words = 3, lexical_diversity = 1 / 4,
      advanced_ratio = None, common_words = None, feedback = []\<rparr>
   = Inl (Exn ''OverflowError'' (asc ''int too large to convert to float''))"
  using float_of_int_overflow
  by (simp add: calculate_final_scores_def Let_def flt_0_3_def flt_0_6_def)

text \<open>
  C10, amended: for a rubric vocabulary score \<open>v \<ge> 0\<close> and any lexical diversity, with
  rubric scores inside the range of the floats (the absolute values of the grammar,
  vocabulary and content scores and 3 sum to less than \<open>2^1024 - 2^970\<close>), the
  reconciliation returns a vocabulary score that is not negative; below a diversity of 0.3
  it is \<open>max 0 (v - 5)\<close>, so a base score under 5 gives 0.
\<close>

theorem vocabulary_never_negative:
  assumes "0 \<le> vocabulary_score r"
    and "\<bar>grammar_score r\<bar> + \<bar>vocabulary_score r\<bar> + \<bar>content_score r\<bar> + 3 < 2 ^ 1024 - 2 ^ 970"
  shows "\<exists>fs. calculate_final_scores r gr vr = Inr fs
       \<and> 0 \<le> vocabulary fs
       \<and> (lexical_diversity vr < flt_0_3 \<longrightarrow> vocabulary fs = max 0 (vocabulary_score r - 5))
       \<and> (lexical_diversity vr < flt_0_3 \<and> vocabulary_score r < 5 \<longrightarrow> vocabulary fs = 0)"
proof -
  obtain fs where fs: "calculate_final_scores r gr vr = Inr fs"
    using calculate_final_scores_total [OF assms(2)] by blast
  show ?thesis
    using assms(1) fs calculate_final_scores_vocabulary [OF fs] by auto
qed

theorem vocabulary_never_negative_witness:
  "(0::int) \<le> 3
   \<and> \<bar>20::int\<bar> + \<bar>3\<bar> + \<bar>30\<bar> + 3 < 2 ^ 1024 - 2 ^ 970
   \<and> calculate_final_scores
     \<lparr>overall_score = 0, grammar_score = 20, vocabulary_score = 3, content_score = 30,
      overall_feedback = [], strengths = [], weaknesses = [], suggestions = []\<rparr>
     \<lparr>errors = [], error_count = 0, message = []\<rparr>
     \<lparr>word_count = 12, unique_words = 3, lexical_diversity = 1 / 4,
      advanced_ratio = None, common_words = None, feedback = []\<rparr>
   = Inr \<lparr>overall = 49, grammar = 20, vocabulary = 0, content = 30\<rparr>
   \<and> (1 / 4 :: rat) < flt_0_3 \<and> (3::int) < 5 \<and> (0::int) = max 0 (3 - 5)"
proof -
  have h: "calculate_final_scores
     \<lparr>overall_score = 0, grammar_score = 20, vocabulary_score = 3, content_score = 30,
      overall_feedback = [], strengths = [], weaknesses = [], suggestions = []\<rparr>
     \<lparr>errors = [], error_count = 0, message = []\<rparr>
     \<lparr>word_count = 12, unique_words = 3, lexical_diversity = 1 / 4,
      advanced_ratio = None, common_words = None, feedback = []\<rparr>
   = Inr \<lparr>overall = 49, grammar = 20, vocabulary = 0, content = 30\<rparr>"
    by (simp add: calculate_final_scores_def Let_def float_of_int_exact flt_0_3_def
          flt_0_6_def dampened_overall [of 50, simplified])
  show ?thesis
    using h vocabulary_never_negative [of "\<lparr>overall_score = 0, grammar_score = 20, vocabulary_score = 3, content_score = 30,
      overall_feedback = [], strengths = [], weaknesses = [], suggestions = []\<rparr>"
        "\<lparr>errors = [], error_count = 0, message = []\<rparr>"
        "\<lparr>word_count = 12, unique_words = 3, lexical_diversity = 1 / 4,
      advanced_ratio = None, common_words = None, feedback = []\<rparr>"]
    by (simp add: flt_0_3_def)
qed

section \<open>Properties of the response parser\<close>

lemma startswith_append: "startswith s (p @ q) \<Longrightarrow> startswith s p"
proof -
  assume "startswith s (p @ q)"
  then have h: "take (length p + length q) s = p @ q" by (simp add: startswith_def)
  have "take (length p) s = take (length p) (take (length p + length q) s)" by simp
  also have "\<dots> = p" by (simp only: h) simp
  finally show ?thesis by (simp add: startswith_def)
qed

lemma label_reset:
  "startswith l label_overall \<Longrightarrow> startswith_any l reset_prefixes"
  "startswith l label_grammar \<Longrightarrow> startswith_any l reset_prefixes"
  "startswith l label_vocabulary \<Longrightarrow> startswith_any l reset_prefixes"
  "startswith l label_content \<Longrightarrow> startswith_any l reset_prefixes"
  "startswith l label_feedback \<Longrightarrow> startswith_any l reset_prefixes"
  "startswith l label_strengths \<Longrightarrow> startswith_any l reset_prefixes"
  "startswith l label_weaknesses \<Longrightarrow> startswith_any l reset_prefixes"
  "startswith l label_suggestions \<Longrightarrow> startswith_any l reset_prefixes"
proof -
  show "startswith l label_overall \<Longrightarrow> startswith_any l reset_prefixes"
    using startswith_append [of l "[0x603B, 0x4F53]" "[0x8BC4, 0x5206, 0x3A]"]
    by (simp add: label_overall_def startswith_any_def reset_prefixes_def)
  show "startswith l label_grammar \<Longrightarrow> startswith_any l reset_prefixes"
    using startswith_append [of l "[0x8BED, 0x6CD5]" "[0x5F97, 0x5206, 0x3A]"]
    by (simp add: label_grammar_def startswith_any_def reset_prefixes_def)
  show "startswith l label_vocabulary \<Longrightarrow> startswith_any l reset_prefixes"
    using startswith_append [of l "[0x8BCD, 0x6C47]" "[0x5F97, 0x5206, 0x3A]"]
    by (simp add: label_vocabulary_def startswith_any_def reset_prefixes_def)
  show "startswith l label_content \<Longrightarrow> startswith_any l reset_prefixes"
    using startswith_append [of l "[0x5185, 0x5BB9]" "[0x5F97, 0x5206, 0x3A]"]
    by (simp add: label_content_def startswith_any_def reset_prefixes_def)
  show "startswith l label_feedback \<Longrightarrow> startswith_any l reset_prefixes"
    using startswith_append [of l "[0x603B, 0x4F53]" "[0x8BC4, 0x4EF7, 0x3A]"]
    by (simp add: label_feedback_def startswith_any_def reset_prefixes_def)
  show "startswith l label_strengths \<Longrightarrow> startswith_any l reset_prefixes"
    using startswith_append [of l "[0x31, 0x2E]" "[0x20, 0x4F18, 0x70B9, 0x3A]"]
    by (simp add: label_strengths_def startswith_any_def reset_prefixes_def)
  show "startswith l label_weaknesses \<Longrightarrow> startswith_any l reset_prefixes"
    using startswith_append [of l "[0x32, 0x2E]"
        "[0x20, 0x9700, 0x8981, 0x6539, 0x8FDB, 0x7684, 0x5730, 0x65B9, 0x3A]"]
    by (simp add: label_weaknesses_def startswith_any_def reset_prefixes_def)
  show "startswith l label_suggestions \<Longrightarrow> startswith_any l reset_prefixes"
    using startswith_append [of l "[0x33, 0x2E]" "[0x20, 0x5177, 0x4F53, 0x5EFA, 0x8BAE, 0x3A]"]
    by (simp add: label_suggestions_def startswith_any_def reset_prefixes_def)
qed

lemma no_reset_no_label:
  assumes "\<not> startswith_any l reset_prefixes"
  shows "\<not> startswith l label_overall" "\<not> startswith l label_grammar"
    "\<not> startswith l label_vocabulary" "\<not> startswith l label_content"
    "\<not> startswith l label_feedback" "\<not> startswith l label_strengths"
    "\<not> startswith l label_weaknesses" "\<not> startswith l label_suggestions"
  using assms label_reset [of l] by blast+

lemma startswith_Nil [simp]: "startswith [] p \<longleftrightarrow> p = []"
  by (auto simp: startswith_def)

lemma parse_line_continue:
  assumes "strip raw \<noteq> []" "\<not> startswith_any (strip raw) reset_prefixes"
  shows "parse_line mx raw (res, Some sec) = Inr (add_entry sec (strip raw) res, Some sec)"
  using assms no_reset_no_label [OF assms(2)]
  by (cases sec) (simp_all add: parse_line_def add_entry_def)

lemma parse_line_blank:
  assumes "strip raw = []"
  shows "parse_line mx raw st = Inr st"
  using assms
  by (simp add: parse_line_def startswith_any_def reset_prefixes_def
      label_overall_def label_grammar_def label_vocabulary_def label_content_def
      label_feedback_def label_strengths_def label_weaknesses_def label_suggestions_def)

lemma parse_line_section_change:
  assumes "parse_line mx raw (res, sec) = Inr (res', sec')" "sec' \<noteq> sec"
  shows "startswith_any (strip raw) reset_prefixes"
proof (rule ccontr)
  assume n: "\<not> startswith_any (strip raw) reset_prefixes"
  note nl = no_reset_no_label [OF n]
  from assms(1) have "sec' = sec"
    using n nl by (auto simp: parse_line_def Let_def split: if_splits option.splits section_name.splits)
  with assms(2) show False by simp
qed

lemma parse_lines_append:
  "parse_lines mx (ls @ ms) st =
     (case parse_lines mx ls st of
        (None, st') \<Rightarrow> parse_lines mx ms st'
      | (Some e, st') \<Rightarrow> (Some e, st'))"
  by (induction ls arbitrary: st) (auto split: sum.splits)

lemma parse_lines_snoc:
  assumes "parse_lines mx ls st0 = (None, st)"
  shows "parse_lines mx (ls @ [raw]) st0 =
     (case parse_line mx raw st of Inl e \<Rightarrow> (Some e, st) | Inr st' \<Rightarrow> (None, st'))"
  using assms by (simp add: parse_lines_append split: sum.splits)

lemma int_of_str_nonneg: "int_of_str mx s = Inr n \<Longrightarrow> 0 \<le> n"
  by (auto simp: int_of_str_def split: if_splits option.splits)

lemma read_score_cases:
  assumes "read_score mx denom line store result = Inr r"
  shows "r = result \<or> (\<exists>n. 0 \<le> n \<and> r = store n)"
  using assms int_of_str_nonneg
  by (auto simp: read_score_def split: option.splits sum.splits)

lemma parse_line_nonneg:
  assumes "parse_line mx raw (res, sec) = Inr (res', sec')" "nonneg_scores res"
  shows "nonneg_scores res'"
proof -
  have s: "\<And>store r. read_score mx denom_100 (strip raw) store res = Inr r \<Longrightarrow>
      (\<And>n. 0 \<le> n \<Longrightarrow> nonneg_scores (store n)) \<Longrightarrow> nonneg_scores r"
    "\<And>store r. read_score mx denom_30 (strip raw) store res = Inr r \<Longrightarrow>
      (\<And>n. 0 \<le> n \<Longrightarrow> nonneg_scores (store n)) \<Longrightarrow> nonneg_scores r"
    "\<And>store r. read_score mx denom_40 (strip raw) store res = Inr r \<Longrightarrow>
      (\<And>n. 0 \<le> n \<Longrightarrow> nonneg_scores (store n)) \<Longrightarrow> nonneg_scores r"
    using read_score_cases assms(2) by blast+
  have u: "\<And>n. 0 \<le> n \<Longrightarrow> nonneg_scores (res\<lparr>overall_score := n\<rparr>)"
    "\<And>n. 0 \<le> n \<Longrightarrow> nonneg_scores (res\<lparr>grammar_score := n\<rparr>)"
    "\<And>n. 0 \<le> n \<Longrightarrow> nonneg_scores (res\<lparr>vocabulary_score := n\<rparr>)"
    "\<And>n. 0 \<le> n \<Longrightarrow> nonneg_scores (res\<lparr>content_score := n\<rparr>)"
    using assms(2) by (simp_all add: nonneg_scores_def)
  have t: "\<And>x. nonneg_scores (res\<lparr>overall_feedback := x\<rparr>)"
    "\<And>x. nonneg_scores (res\<lparr>strengths := x\<rparr>)"
    "\<And>x. nonneg_scores (res\<lparr>weaknesses := x\<rparr>)"
    "\<And>x. nonneg_scores (res\<lparr>suggestions := x\<rparr>)"
    using assms(2) by (simp_all add: nonneg_scores_def)
  show ?thesis
    using assms(1) s(1) [OF _ u(1)] s(2) [OF _ u(2)] s(2) [OF _ u(3)] s(3) [OF _ u(4)] t assms(2)
    by (auto simp: parse_line_def Let_def map_sum_def
        split: if_splits option.splits section_name.splits sum.splits)
qed

lemma parse_lines_nonneg:
  assumes "parse_lines mx ls st = (e, st')" "nonneg_scores (fst st)"
  shows "nonneg_scores (fst st')"
  using assms
proof (induction ls arbitrary: st)
  case Nil
  then show ?case by simp
next
  case (Cons l ls)
  show ?case
  proof (cases "parse_line mx l st")
    case (Inl x)
    with Cons.prems show ?thesis by simp
  next
    case (Inr st1)
    with Cons.prems have p: "parse_lines mx ls st1 = (e, st')" by simp
    have "nonneg_scores (fst st1)"
      using parse_line_nonneg [of mx l "fst st" "snd st" "fst st1" "snd st1"] Inr Cons.prems(2)
      by simp
    with Cons.IH p show ?thesis by blast
  qed
qed

lemma int_of_str_raises_Exn: "int_of_str mx s = Inl e \<Longrightarrow> \<exists>cls msg. e = Exn cls msg"
  by (auto simp: int_of_str_def split: if_splits option.splits)

lemma read_score_raises_Exn:
  "read_score mx denom line store result = Inl e \<Longrightarrow> \<exists>cls msg. e = Exn cls msg"
  using int_of_str_raises_Exn
  by (auto simp: read_score_def split: option.splits sum.splits)

lemma parse_line_raises_Exn:
  assumes "parse_line mx raw st = Inl e"
  shows "\<exists>cls msg. e = Exn cls msg"
proof -
  have "\<exists>denom store. read_score mx denom (strip raw) store (fst st) = Inl e"
    using assms
    by (auto simp: parse_line_def Let_def map_sum_def
        split: if_splits option.splits section_name.splits sum.splits)
  then show ?thesis using read_score_raises_Exn by blast
qed

lemma parse_lines_raises_Exn:
  "parse_lines mx ls st = (Some e, st') \<Longrightarrow> \<exists>cls msg. e = Exn cls msg"
proof (induction ls arbitrary: st)
  case Nil
  then show ?case by simp
next
  case (Cons l ls)
  show ?case
  proof (cases "parse_line mx l st")
    case (Inl x)
    with Cons.prems have "x = e" by simp
    with Inl show ?thesis using parse_line_raises_Exn by blast
  next
    case (Inr st1)
    with Cons.prems have "parse_lines mx ls st1 = (Some e, st')" by simp
    then show ?thesis by (rule Cons.IH)
  qed
qed

lemma parse_llm_response_returns:
  "parse_llm_response mx response_text =
     Inr (fst (snd (parse_lines mx (split_on 0xA (strip response_text)) (initial_result, None))))"
proof -
  obtain e st where p:
    "parse_lines mx (split_on 0xA (strip response_text)) (initial_result, None) = (e, st)"
    by (cases "parse_lines mx (split_on 0xA (strip response_text)) (initial_result, None)")
  show ?thesis
  proof (cases e)
    case None
    with p show ?thesis by (simp add: parse_llm_response_def Let_def)
  next
    case (Some x)
    with p obtain cls msg where "x = Exn cls msg"
      using parse_lines_raises_Exn by blast
    with p Some show ?thesis by (simp add: parse_llm_response_def Let_def)
  qed
qed

lemma parse_llm_response_nonneg:
  assumes "parse_llm_response mx response_text = Inr r"
  shows "nonneg_scores r"
proof -
  obtain e st where p:
    "parse_lines mx (split_on 0xA (strip response_text)) (initial_result, None) = (e, st)"
    by (cases "parse_lines mx (split_on 0xA (strip response_text)) (initial_result, None)")
  have "nonneg_scores (fst st)"
    using parse_lines_nonneg [OF p] by (simp add: initial_result_def nonneg_scores_def)
  with assms p show ?thesis by (simp add: parse_llm_response_returns)
qed

lemma parse_line_no_label:
  assumes "\<not> startswith_any (strip raw) all_labels"
  shows "parse_line mx raw (res, None) = Inr (res, None)"
  using assms
  by (simp add: parse_line_def all_labels_def startswith_any_def Let_def)

lemma parse_lines_no_label:
  assumes "\<not> list_ex (\<lambda>l. startswith_any (strip l) all_labels) ls"
  shows "parse_lines mx ls (res, None) = (None, (res, None))"
  using assms by (induction ls) (simp_all add: parse_line_no_label)

text \<open>
  With a limit of three digits the score line with 1234 raises inside the loop; the
  exception is caught, the loop is left, and the result so far is returned: the grammar
  score of the next line is never read. (CPython accepts no limit between 1 and 639; the
  small limit keeps the example short.)
\<close>

lemma parse_llm_response_caught:
  "parse_llm_response 3
     [0x603B, 0x4F53, 0x8BC4, 0x5206, 0x3A, 0x20, 0x31, 0x32, 0x33, 0x34, 0x2F, 0x31, 0x30,
      0x30, 0xA, 0x8BED, 0x6CD5, 0x5F97, 0x5206, 0x3A, 0x20, 0x32, 0x35, 0x2F, 0x33, 0x30]
   = Inr initial_result"
  by code_simp

subsection \<open>C5: the range of the parsed scores\<close>

text \<open>
  C5, as stated, fails: the parser stores whatever number stands before the denominator.
  The response whose only line is the overall label followed by \<open>999/100\<close> is parsed
  to an overall score of 999.
\<close>

theorem parsed_score_above_range_counterexample:
  "parse_llm_response 4300
     [0x603B, 0x4F53, 0x8BC4, 0x5206, 0x3A, 0x20, 0x39, 0x39, 0x39, 0x2F, 0x31, 0x30, 0x30]
   = Inr \<lparr>overall_score = 999, grammar_score = 0, vocabulary_score = 0, content_score = 0,
          overall_feedback = [], strengths = [], weaknesses = [], suggestions = []\<rparr>
   \<and> \<not> (999::int) \<le> 100"
  by code_simp

text \<open>
  C5, amended: for every model response string the parser returns a result whose four
  scores are not negative; no upper bound is enforced.
\<close>

theorem parsed_scores_nonneg:
  "\<exists>r. parse_llm_response mx response_text = Inr r
       \<and> 0 \<le> overall_score r \<and> 0 \<le> grammar_score r
       \<and> 0 \<le> vocabulary_score r \<and> 0 \<le> content_score r"
  using parse_llm_response_nonneg [of mx response_text]
  by (simp add: parse_llm_response_returns nonneg_scores_def)

subsection \<open>C6: the continuation of a section\<close>

text \<open>
  C6, as stated, fails. In the response with the three lines \<open>1. <strengths>: a\<close>,
  \<open>2. b\<close> and \<open>c\<close> the second line is not empty and starts with none of the labels, yet
  it is not appended to the strengths; it ends the section, so the third line is not
  appended either.
\<close>

theorem section_continuation_counterexample:
  "parse_llm_response 4300
     [0x31, 0x2E, 0x20, 0x4F18, 0x70B9, 0x3A, 0x20, 0x61, 0xA, 0x32, 0x2E, 0x20, 0x62, 0xA,
      0x63]
   = Inr \<lparr>overall_score = 0, grammar_score = 0, vocabulary_score = 0, content_score = 0,
          overall_feedback = [], strengths = [[0x61]], weaknesses = [], suggestions = []\<rparr>
   \<and> strip [0x32, 0x2E, 0x20, 0x62] \<noteq> []
   \<and> \<not> startswith_any (strip [0x32, 0x2E, 0x20, 0x62]) all_labels"
  by code_simp

text \<open>
  C6, amended: once a section is active, and as long as no score line has raised inside
  \<open>int\<close> (that ends the loop: no later line is read, so nothing more is appended), every
  following line that is not empty after trimming and does not start with one of the seven
  prefixes \<open>1.\<close>, \<open>2.\<close>, \<open>3.\<close> and the first two characters of the score and
  evaluation labels is appended to that section as a further entry; a blank line changes
  nothing; and the active section changes only at a line that starts with one of the seven
  prefixes.
\<close>

theorem section_continuation:
  assumes "parse_lines mx ls st0 = (raised, (res, Some sec))"
  shows "(raised = None \<and> strip raw \<noteq> [] \<and> \<not> startswith_any (strip raw) reset_prefixes \<longrightarrow>
            parse_lines mx (ls @ [raw]) st0 = (None, (add_entry sec (strip raw) res, Some sec)))
       \<and> (raised = None \<and> strip raw = [] \<longrightarrow>
            parse_lines mx (ls @ [raw]) st0 = (None, (res, Some sec)))
       \<and> (raised \<noteq> None \<longrightarrow>
            parse_lines mx (ls @ [raw]) st0 = (raised, (res, Some sec)))
       \<and> (parse_lines mx (ls @ [raw]) st0 = (raised', (res', sec')) \<and> sec' \<noteq> Some sec \<longrightarrow>
            raised = None \<and> startswith_any (strip raw) reset_prefixes)"
proof (intro conjI impI)
  assume a: "raised = None \<and> strip raw \<noteq> [] \<and> \<not> startswith_any (strip raw) reset_prefixes"
  then have h: "parse_lines mx ls st0 = (None, (res, Some sec))" using assms by simp
  from a show "parse_lines mx (ls @ [raw]) st0 = (None, (add_entry sec (strip raw) res, Some sec))"
    by (simp add: parse_lines_snoc [OF h] parse_line_continue)
next
  assume a: "raised = None \<and> strip raw = []"
  then have h: "parse_lines mx ls st0 = (None, (res, Some sec))" using assms by simp
  from a show "parse_lines mx (ls @ [raw]) st0 = (None, (res, Some sec))"
    by (simp add: parse_lines_snoc [OF h] parse_line_blank)
next
  assume "raised \<noteq> None"
  then show "parse_lines mx (ls @ [raw]) st0 = (raised, (res, Some sec))"
    using assms by (auto simp: parse_lines_append)
next
  assume a: "parse_lines mx (ls @ [raw]) st0 = (raised', (res', sec')) \<and> sec' \<noteq> Some sec"
  show "raised = None"
  proof (rule ccontr)
    assume "raised \<noteq> None"
    then have "parse_lines mx (ls @ [raw]) st0 = (raised, (res, Some sec))"
      using assms by (auto simp: parse_lines_append)
    with a show False by auto
  qed
next
  assume a: "parse_lines mx (ls @ [raw]) st0 = (raised', (res', sec')) \<and> sec' \<noteq> Some sec"
  have n: "raised = None"
  proof (rule ccontr)
    assume "raised \<noteq> None"
    then have "parse_lines mx (ls @ [raw]) st0 = (raised, (res, Some sec))"
      using assms by (auto simp: parse_lines_append)
    with a show False by auto
  qed
  then have h: "parse_lines mx ls st0 = (None, (res, Some sec))" using assms by simp
  from a have "parse_line mx raw (res, Some sec) = Inr (res', sec')"
    by (auto simp: parse_lines_snoc [OF h] split: sum.splits)
  with a show "startswith_any (strip raw) reset_prefixes"
    using parse_line_section_change by blast
qed

theorem section_continuation_witness:
  "parse_lines 4300 [[0x31, 0x2E, 0x20, 0x4F18, 0x70B9, 0x3A, 0x20, 0x61]] (initial_result, None)
     = (None, (initial_result\<lparr>strengths := [[0x61]]\<rparr>, Some Strengths))
   \<and> (strip [0x20, 0x62, 0x63] \<noteq> [] \<and> \<not> startswith_any (strip [0x20, 0x62, 0x63]) reset_prefixes)
   \<and> parse_lines 4300 ([[0x31, 0x2E, 0x20, 0x4F18, 0x70B9, 0x3A, 0x20, 0x61]] @ [[0x20, 0x62, 0x63]])
        (initial_result, None)
     = (None, (initial_result\<lparr>strengths := [[0x61], [0x62, 0x63]]\<rparr>, Some Strengths))
   \<and> strip [0x20] = []
   \<and> parse_lines 4300 ([[0x31, 0x2E, 0x20, 0x4F18, 0x70B9, 0x3A, 0x20, 0x61]] @ [[0x20]])
        (initial_result, None)
     = (None, (initial_result\<lparr>strengths := [[0x61]]\<rparr>, Some Strengths))
   \<and> (parse_lines 4300 ([[0x31, 0x2E, 0x20, 0x4F18, 0x70B9, 0x3A, 0x20, 0x61]] @ [[0x32, 0x2E, 0x20, 0x62]])
        (initial_result, None)
     = (None, (initial_result\<lparr>strengths := [[0x61]]\<rparr>, None))
      \<and> None \<noteq> Some Strengths)
   \<and> startswith_any (strip [0x32, 0x2E, 0x20, 0x62]) reset_prefixes
   \<and> (parse_lines 3
         [[0x31, 0x2E, 0x20, 0x4F18, 0x70B9, 0x3A, 0x20, 0x61],
          [0x603B, 0x4F53, 0x8BC4, 0x5206, 0x3A, 0x20, 0x31, 0x32, 0x33, 0x34, 0x2F, 0x31, 0x30, 0x30]]
         (initial_result, None)
       = (Some (Exn ''ValueError''
          (asc ''Exceeds the limit ('' @ str_of_nat 3 @
           asc '' digits) for integer string conversion: value has '' @
           str_of_nat 4 @
           asc '' digits; use sys.set_int_max_str_digits() to increase the limit'')),
          (initial_result\<lparr>strengths := [[0x61]]\<rparr>, Some Strengths))
      \<and> Some (Exn ''ValueError''
          (asc ''Exceeds the limit ('' @ str_of_nat 3 @
           asc '' digits) for integer string conversion: value has '' @
           str_of_nat 4 @
           asc '' digits; use sys.set_int_max_str_digits() to increase the limit'')) \<noteq> None)
   \<and> parse_lines 3
         ([[0x31, 0x2E, 0x20, 0x4F18, 0x70B9, 0x3A, 0x20, 0x61],
           [0x603B, 0x4F53, 0x8BC4, 0x5206, 0x3A, 0x20, 0x31, 0x32, 0x33, 0x34, 0x2F, 0x31, 0x30, 0x30]] @ [[0x62]])
         (initial_result, None)
       = (Some (Exn ''ValueError''
          (asc ''Exceeds the limit ('' @ str_of_nat 3 @
           asc '' digits) for integer string conversion: value has '' @
           str_of_nat 4 @
           asc '' digits; use sys.set_int_max_str_digits() to increase the limit'')),
          (initial_result\<lparr>strengths := [[0x61]]\<rparr>, Some Strengths))"
proof -
  have h: "parse_lines 4300 [[0x31, 0x2E, 0x20, 0x4F18, 0x70B9, 0x3A, 0x20, 0x61]]
             (initial_result, None)
           = (None, (initial_result\<lparr>strengths := [[0x61]]\<rparr>, Some Strengths))"
    by code_simp
  have p1: "strip [0x20, 0x62, 0x63] \<noteq> [] \<and> \<not> startswith_any (strip [0x20, 0x62, 0x63]) reset_prefixes"
    by code_simp
  have e1: "add_entry Strengths (strip [0x20, 0x62, 0x63]) (initial_result\<lparr>strengths := [[0x61]]\<rparr>)
            = initial_result\<lparr>strengths := [[0x61], [0x62, 0x63]]\<rparr>"
    by code_simp
  have p2: "strip [0x20] = []"
    by code_simp
  have p3: "parse_lines 4300
             ([[0x31, 0x2E, 0x20, 0x4F18, 0x70B9, 0x3A, 0x20, 0x61]] @ [[0x32, 0x2E, 0x20, 0x62]])
             (initial_result, None)
           = (None, (initial_result\<lparr>strengths := [[0x61]]\<rparr>, None))
        \<and> None \<noteq> Some Strengths"
    by code_simp
  have p4: "parse_lines 3
         [[0x31, 0x2E, 0x20, 0x4F18, 0x70B9, 0x3A, 0x20, 0x61],
          [0x603B, 0x4F53, 0x8BC4, 0x5206, 0x3A, 0x20, 0x31, 0x32, 0x33, 0x34, 0x2F, 0x31, 0x30, 0x30]]
         (initial_result, None)
       = (Some (Exn ''ValueError''
          (asc ''Exceeds the limit ('' @ str_of_nat 3 @
           asc '' digits) for integer string conversion: value has '' @
           str_of_nat 4 @
           asc '' digits; use sys.set_int_max_str_digits() to increase the limit'')),
          (initial_result\<lparr>strengths := [[0x61]]\<rparr>, Some Strengths))
      \<and> Some (Exn ''ValueError''
          (asc ''Exceeds the limit ('' @ str_of_nat 3 @
           asc '' digits) for integer string conversion: value has '' @
           str_of_nat 4 @
           asc '' digits; use sys.set_int_max_str_digits() to increase the limit'')) \<noteq> None"
    by code_simp
  have c1: "parse_lines 4300
        ([[0x31, 0x2E, 0x20, 0x4F18, 0x70B9, 0x3A, 0x20, 0x61]] @ [[0x20, 0x62, 0x63]])
        (initial_result, None)
     = (None, (initial_result\<lparr>strengths := [[0x61], [0x62, 0x63]]\<rparr>, Some Strengths))"
    using section_continuation [OF h, of "[0x20, 0x62, 0x63]"] p1 unfolding e1 by blast
  have c2: "parse_lines 4300 ([[0x31, 0x2E, 0x20, 0x4F18, 0x70B9, 0x3A, 0x20, 0x61]] @ [[0x20]])
        (initial_result, None)
     = (None, (initial_result\<lparr>strengths := [[0x61]]\<rparr>, Some Strengths))"
    using section_continuation [OF h, of "[0x20]"] p2 by blast
  have c3: "startswith_any (strip [0x32, 0x2E, 0x20, 0x62]) reset_prefixes"
    using section_continuation [OF h, of "[0x32, 0x2E, 0x20, 0x62]"
        None "initial_result\<lparr>strengths := [[0x61]]\<rparr>" None] p3 by blast
  have c4: "parse_lines 3
         ([[0x31, 0x2E, 0x20, 0x4F18, 0x70B9, 0x3A, 0x20, 0x61],
           [0x603B, 0x4F53, 0x8BC4, 0x5206, 0x3A, 0x20, 0x31, 0x32, 0x33, 0x34, 0x2F, 0x31, 0x30, 0x30]] @ [[0x62]])
         (initial_result, None)
       = (Some (Exn ''ValueError''
          (asc ''Exceeds the limit ('' @ str_of_nat 3 @
           asc '' digits) for integer string conversion: value has '' @
           str_of_nat 4 @
           asc '' digits; use sys.set_int_max_str_digits() to increase the limit'')),
          (initial_result\<lparr>strengths := [[0x61]]\<rparr>, Some Strengths))"
    using section_continuation [OF conjunct1 [OF p4], of "[0x62]"] p4 by blast
  show ?thesis
    using h p1 c1 p2 c2 p3 c3 p4 c4 by blast
qed

subsection \<open>C7: responses without a label, and exceptions\<close>

text \<open>
  C7: for a response none of whose lines starts, after trimming, with one of the eight
  labels the parser returns the result it started with (all four scores 0, an empty
  overall feedback, three empty lists); and for every response the parser returns a
  result, it never raises.
\<close>

theorem parser_defaults_and_never_raises:
  "(\<exists>r. parse_llm_response mx response_text = Inr r)
   \<and> (\<not> has_label_line response_text \<longrightarrow>
        parse_llm_response mx response_text =
          Inr \<lparr>overall_score = 0, grammar_score = 0, vocabulary_score = 0, content_score = 0,
               overall_feedback = [], strengths = [], weaknesses = [], suggestions = []\<rparr>)"
  using parse_lines_no_label [of "split_on 0xA (strip response_text)" mx initial_result]
  by (simp add: parse_llm_response_returns has_label_line_def initial_result_def)

theorem parser_defaults_and_never_raises_witness:
  "\<not> has_label_line
     [0x48, 0x65, 0x6C, 0x6C, 0x6F, 0x20, 0x77, 0x6F, 0x72, 0x6C, 0x64, 0xA, 0x6E, 0x6F,
      0x74, 0x68, 0x69, 0x6E, 0x67, 0x20, 0x74, 0x6F, 0x20, 0x73, 0x65, 0x65]
   \<and> parse_llm_response 4300
     [0x48, 0x65, 0x6C, 0x6C, 0x6F, 0x20, 0x77, 0x6F, 0x72, 0x6C, 0x64, 0xA, 0x6E, 0x6F,
      0x74, 0x68, 0x69, 0x6E, 0x67, 0x20, 0x74, 0x6F, 0x20, 0x73, 0x65, 0x65]
   = Inr \<lparr>overall_score = 0, grammar_score = 0, vocabulary_score = 0, content_score = 0,
          overall_feedback = [], strengths = [], weaknesses = [], suggestions = []\<rparr>"
proof -
  have h: "\<not> has_label_line
     [0x48, 0x65, 0x6C, 0x6C, 0x6F, 0x20, 0x77, 0x6F, 0x72, 0x6C, 0x64, 0xA, 0x6E, 0x6F,
      0x74, 0x68, 0x69, 0x6E, 0x67, 0x20, 0x74, 0x6F, 0x20, 0x73, 0x65, 0x65]"
    by code_simp
  show ?thesis
    using h parser_defaults_and_never_raises [of 4300
     "[0x48, 0x65, 0x6C, 0x6C, 0x6F, 0x20, 0x77, 0x6F, 0x72, 0x6C, 0x64, 0xA, 0x6E, 0x6F,
      0x74, 0x68, 0x69, 0x6E, 0x67, 0x20, 0x74, 0x6F, 0x20, 0x73, 0x65, 0x65]"]
    by simp
qed

section \<open>Properties of the grammar check\<close>

lemma exn_str_Exn [simp]: "exn_str (Exn cls msg) = msg"
  by (simp add: exn_str_def)


subsection \<open>C8: the grammar check without a working tool\<close>




section \<open>Properties of the vocabulary analysis\<close>

lemma split_runs_tokens:
  assumes "\<forall>c\<in>set cur. \<not> isspace c" "w \<in> set (split_runs cur s)"
  shows "w \<noteq> [] \<and> (\<forall>c\<in>set w. \<not> isspace c)"
  using assms
proof (induction s arbitrary: cur)
  case Nil
  then show ?case by (auto split: if_splits)
next
  case (Cons c s)
  show ?case
  proof (cases "isspace c")
    case True
    with Cons.prems have "w = cur \<and> cur \<noteq> [] \<or> w \<in> set (split_runs [] s)"
      by (auto split: if_splits)
    then show ?thesis
      using Cons.prems(1) Cons.IH [of "[]"] by auto
  next
    case False
    with Cons.prems have "w \<in> set (split_runs (cur @ [c]) s)" by simp
    moreover have "\<forall>d\<in>set (cur @ [c]). \<not> isspace d" using Cons.prems(1) False by simp
    ultimately show ?thesis using Cons.IH [of "cur @ [c]"] by blast
  qed
qed

lemma strip_no_space:
  assumes "\<forall>c\<in>set w. \<not> isspace c"
  shows "strip w = w"
proof -
  have a: "dropWhile isspace w = w" using assms by (simp add: dropWhile_eq_self_iff hd_in_set)
  have "\<forall>c\<in>set (rev w). \<not> isspace c" using assms by simp
  then have b: "dropWhile isspace (rev w) = rev w"
    by (simp add: dropWhile_eq_self_iff hd_in_set del: set_rev)
  show ?thesis by (simp add: strip_def a b)
qed

lemma tokens_not_blank:
  "filter (\<lambda>word. strip word \<noteq> []) (split_whitespace text) = split_whitespace text"
proof -
  have "\<forall>w\<in>set (split_whitespace text). strip w \<noteq> []"
  proof
    fix w assume "w \<in> set (split_whitespace text)"
    then have "w \<noteq> [] \<and> (\<forall>c\<in>set w. \<not> isspace c)"
      using split_runs_tokens [of "[]" w "text"] by (simp add: split_whitespace_def)
    then show "strip w \<noteq> []" by (simp add: strip_no_space)
  qed
  then show ?thesis by (simp add: filter_id_conv)
qed

lemma vocabulary_words_eq: "vocabulary_words lower text = map lower (split_whitespace text)"
  by (simp add: vocabulary_words_def tokens_not_blank)

lemma first_occurrences_nonempty: "ws \<noteq> [] \<Longrightarrow> first_occurrences ws \<noteq> []"
  by (simp add: first_occurrences_def)

lemma vocabulary_feedback_eq:
  assumes "vocabulary_words lower text \<noteq> []"
  shows "vocabulary_feedback lower text =
     join [0x20]
       ([length_sentence (int (length (vocabulary_words lower text)))] @
        [diversity_sentence (diversity_of (vocabulary_words lower text))] @
        advanced_sentences (advanced_ratio_of (vocabulary_words lower text)))"
proof -
  define ws where "ws = vocabulary_words lower text"
  have w: "map lower (filter (\<lambda>word. strip word \<noteq> []) (split_whitespace text)) = ws"
    by (simp add: ws_def vocabulary_words_def)
  have n: "ws \<noteq> []" using assms by (simp add: ws_def)
  have u: "0 < int (length (first_occurrences ws))"
    using first_occurrences_nonempty [OF n] by simp
  show ?thesis
    unfolding vocabulary_feedback_def analyze_vocabulary_def w ws_def [symmetric]
    using n u
    by (simp add: Let_def length_sentence_def diversity_sentence_def advanced_sentences_def
        diversity_of_def advanced_ratio_of_def)
qed

subsection \<open>C9: the feedback of the vocabulary analysis\<close>

text \<open>
  C9, as stated, fails where the share of advanced words is exactly 0.3. The text
  \<open>i you he she it we they cat dog sun\<close> has ten different words, three of them not in
  the basic list; the share is the float 0.3, and the feedback has the sentence for the
  word count and the sentence for the diversity only.
\<close>

theorem advanced_sentence_at_threshold_counterexample:
  "advanced_ratio_of (vocabulary_words ascii_lower
       [0x69, 0x20, 0x79, 0x6F, 0x75, 0x20, 0x68, 0x65, 0x20, 0x73, 0x68, 0x65, 0x20, 0x69,
        0x74, 0x20, 0x77, 0x65, 0x20, 0x74, 0x68, 0x65, 0x79, 0x20, 0x63, 0x61, 0x74, 0x20,
        0x64, 0x6F, 0x67, 0x20, 0x73, 0x75, 0x6E]) = flt_0_3
   \<and> vocabulary_feedback ascii_lower
       [0x69, 0x20, 0x79, 0x6F, 0x75, 0x20, 0x68, 0x65, 0x20, 0x73, 0x68, 0x65, 0x20, 0x69,
        0x74, 0x20, 0x77, 0x65, 0x20, 0x74, 0x68, 0x65, 0x79, 0x20, 0x63, 0x61, 0x74, 0x20,
        0x64, 0x6F, 0x67, 0x20, 0x73, 0x75, 0x6E]
     = fb_short @ [0x20] @ fb_diverse"
  by code_simp

text \<open>
  C9, amended: for every text with at least one token the feedback is, joined by single
  spaces in this order, exactly one sentence chosen by the word count (below 30, above
  200, or between), exactly one chosen by the lexical diversity (below 0.4, above 0.7, or
  between), and for the share of advanced words one sentence when it is below 0.1, one
  when it is above 0.3, and none otherwise. The feedback is a function of the text (and of
  the interpreter's \<open>str.lower\<close>), so the same text gives the same string. The
  comparisons are the source's, between floats.
\<close>

theorem feedback_composition:
  assumes "split_whitespace text \<noteq> []"
  shows "vocabulary_feedback lower text =
     join [0x20]
       ([length_sentence (int (length (vocabulary_words lower text)))] @
        [diversity_sentence (diversity_of (vocabulary_words lower text))] @
        advanced_sentences (advanced_ratio_of (vocabulary_words lower text)))"
  using assms by (intro vocabulary_feedback_eq) (simp add: vocabulary_words_eq)

theorem feedback_composition_witness:
  "split_whitespace
       [0x4D, 0x79, 0x20, 0x66, 0x61, 0x6D, 0x69, 0x6C, 0x79, 0x20, 0x69, 0x73, 0x20, 0x76,
        0x65, 0x72, 0x79, 0x20, 0x6E, 0x69, 0x63, 0x65, 0x2E, 0x20, 0x49, 0x20, 0x68, 0x61,
        0x76, 0x65, 0x20, 0x61, 0x20, 0x66, 0x61, 0x74, 0x68, 0x65, 0x72, 0x20, 0x61, 0x6E,
        0x64, 0x20, 0x61, 0x20, 0x6D, 0x6F, 0x74, 0x68, 0x65, 0x72, 0x2E] \<noteq> []
   \<and> vocabulary_feedback ascii_lower
       [0x4D, 0x79, 0x20, 0x66, 0x61, 0x6D, 0x69, 0x6C, 0x79, 0x20, 0x69, 0x73, 0x20, 0x76,
        0x65, 0x72, 0x79, 0x20, 0x6E, 0x69, 0x63, 0x65, 0x2E, 0x20, 0x49, 0x20, 0x68, 0x61,
        0x76, 0x65, 0x20, 0x61, 0x20, 0x66, 0x61, 0x74, 0x68, 0x65, 0x72, 0x20, 0x61, 0x6E,
        0x64, 0x20, 0x61, 0x20, 0x6D, 0x6F, 0x74, 0x68, 0x65, 0x72, 0x2E]
     = fb_short @ [0x20] @ fb_diverse @ [0x20] @ fb_advanced_good"
proof -
  have h: "split_whitespace
       [0x4D, 0x79, 0x20, 0x66, 0x61, 0x6D, 0x69, 0x6C, 0x79, 0x20, 0x69, 0x73, 0x20, 0x76,
        0x65, 0x72, 0x79, 0x20, 0x6E, 0x69, 0x63, 0x65, 0x2E, 0x20, 0x49, 0x20, 0x68, 0x61,
        0x76, 0x65, 0x20, 0x61, 0x20, 0x66, 0x61, 0x74, 0x68, 0x65, 0x72, 0x20, 0x61, 0x6E,
        0x64, 0x20, 0x61, 0x20, 0x6D, 0x6F, 0x74, 0x68, 0x65, 0x72, 0x2E] \<noteq> []"
    by code_simp
  have e: "join [0x20]
       ([length_sentence (int (length (vocabulary_words ascii_lower
       [0x4D, 0x79, 0x20, 0x66, 0x61, 0x6D, 0x69, 0x6C, 0x79, 0x20, 0x69, 0x73, 0x20, 0x76,
        0x65, 0x72, 0x79, 0x20, 0x6E, 0x69, 0x63, 0x65, 0x2E, 0x20, 0x49, 0x20, 0x68, 0x61,
        0x76, 0x65, 0x20, 0x61, 0x20, 0x66, 0x61, 0x74, 0x68, 0x65, 0x72, 0x20, 0x61, 0x6E,
        0x64, 0x20, 0x61, 0x20, 0x6D, 0x6F, 0x74, 0x68, 0x65, 0x72, 0x2E])))] @
        [diversity_sentence (diversity_of (vocabulary_words ascii_lower
       [0x4D, 0x79, 0x20, 0x66, 0x61, 0x6D, 0x69, 0x6C, 0x79, 0x20, 0x69, 0x73, 0x20, 0x76,
        0x65, 0x72, 0x79, 0x20, 0x6E, 0x69, 0x63, 0x65, 0x2E, 0x20, 0x49, 0x20, 0x68, 0x61,
        0x76, 0x65, 0x20, 0x61, 0x20, 0x66, 0x61, 0x74, 0x68, 0x65, 0x72, 0x20, 0x61, 0x6E,
        0x64, 0x20, 0x61, 0x20, 0x6D, 0x6F, 0x74, 0x68, 0x65, 0x72, 0x2E]))] @
        advanced_sentences (advanced_ratio_of (vocabulary_words ascii_lower
       [0x4D, 0x79, 0x20, 0x66, 0x61, 0x6D, 0x69, 0x6C, 0x79, 0x20, 0x69, 0x73, 0x20, 0x76,
        0x65, 0x72, 0x79, 0x20, 0x6E, 0x69, 0x63, 0x65, 0x2E, 0x20, 0x49, 0x20, 0x68, 0x61,
        0x76, 0x65, 0x20, 0x61, 0x20, 0x66, 0x61, 0x74, 0x68, 0x65, 0x72, 0x20, 0x61, 0x6E,
        0x64, 0x20, 0x61, 0x20, 0x6D, 0x6F, 0x74, 0x68, 0x65, 0x72, 0x2E])))
     = fb_short @ [0x20] @ fb_diverse @ [0x20] @ fb_advanced_good"
    by code_simp
  show ?thesis
    using h feedback_composition [OF h, of ascii_lower] unfolding e by blast
qed

section \<open>Properties of the grading pipeline\<close>

lemma grade_essay_short:
  assumes "length (strip essay) < 10"
  shows "grade_essay py g essay info = ([], Inr get_empty_essay_result)"
  using assms by (simp add: grade_essay_def)

subsection \<open>C4: the essay that is too short\<close>

text \<open>
  C4, as stated, fails: the report for an essay that is too short has one suggestion
  ("please write an essay of at least 20 words."), not an empty list of suggestions.
\<close>

theorem short_essay_suggestions_counterexample:
  "grade_essay \<lparr>str_lower = ascii_lower, int_max_str_digits = 4300\<rparr>
       \<lparr>grading_chain_run = (\<lambda>t r e. Inl (Exn ''RuntimeError'' [])), grammar_tool_of = None\<rparr>
       [] \<lparr>title = None, prompt = None\<rparr>
     = ([], Inr get_empty_essay_result)
   \<and> rep_suggestions get_empty_essay_result
     = [[0x8BF7, 0x5199, 0x51FA, 0x81F3, 0x5C11, 0x32, 0x30, 0x4E2A, 0x5355,
                       0x8BCD, 0x7684, 0x4F5C, 0x6587, 0x3002]]
   \<and> rep_suggestions get_empty_essay_result \<noteq> []"
  by (simp add: grade_essay_def get_empty_essay_result_def empty_essay_suggestion_def)

text \<open>
  C4, amended: for every essay whose length after trimming is below 10 (the empty essay
  among them) and every prompt info, \<open>grade_essay\<close> returns the fixed report with the
  four scores 0, the fixed feedback sentence, the one weakness "content too short", the one
  fixed suggestion and no strengths, and calls none of the three components.
\<close>

theorem short_essay_report:
  assumes "length (strip essay) < 10"
  shows "grade_essay py g essay info =
           ([], Inr \<lparr>rep_essay = None, rep_prompt_title = None,
              rep_overall_score = 0, rep_grammar_score = 0,
              rep_vocabulary_score = 0, rep_content_score = 0,
              rep_overall_feedback =
                     [0x4F5C, 0x6587, 0x5185, 0x5BB9, 0x8FC7, 0x77ED, 0xFF0C, 0x8BF7,
                      0x8BA4, 0x771F, 0x5199, 0x4F5C, 0x3002],
              rep_grammar_errors = [], rep_vocabulary_feedback = None,
              rep_suggestions =
                [[0x8BF7, 0x5199, 0x51FA, 0x81F3, 0x5C11, 0x32, 0x30, 0x4E2A, 0x5355,
                       0x8BCD, 0x7684, 0x4F5C, 0x6587, 0x3002]],
              rep_strengths = [],
              rep_weaknesses = [[0x5185, 0x5BB9, 0x8FC7, 0x77ED]],
              rep_word_count = 0, rep_character_count = 0\<rparr>)"
  using grade_essay_short [OF assms, of py g info]
  by (simp add: get_empty_essay_result_def empty_essay_feedback_def
      empty_essay_suggestion_def empty_essay_weakness_def)

theorem short_essay_report_witness:
  "length (strip (asc ''  short   '')) < 10
   \<and> grade_essay \<lparr>str_lower = ascii_lower, int_max_str_digits = 4300\<rparr>
       \<lparr>grading_chain_run = (\<lambda>t r e. Inl (Exn ''RuntimeError'' [])), grammar_tool_of = None\<rparr>
       (asc ''  short   '') \<lparr>title = Some (asc ''My Family''), prompt = None\<rparr>
     = ([], Inr \<lparr>rep_essay = None, rep_prompt_title = None,
              rep_overall_score = 0, rep_grammar_score = 0,
              rep_vocabulary_score = 0, rep_content_score = 0,
              rep_overall_feedback =
                     [0x4F5C, 0x6587, 0x5185, 0x5BB9, 0x8FC7, 0x77ED, 0xFF0C, 0x8BF7,
                      0x8BA4, 0x771F, 0x5199, 0x4F5C, 0x3002],
              rep_grammar_errors = [], rep_vocabulary_feedback = None,
              rep_suggestions =
                [[0x8BF7, 0x5199, 0x51FA, 0x81F3, 0x5C11, 0x32, 0x30, 0x4E2A, 0x5355,
                       0x8BCD, 0x7684, 0x4F5C, 0x6587, 0x3002]],
              rep_strengths = [],
              rep_weaknesses = [[0x5185, 0x5BB9, 0x8FC7, 0x77ED]],
              rep_word_count = 0, rep_character_count = 0\<rparr>)"
proof -
  have h: "length (strip (asc ''  short   '')) < 10"
    by code_simp
  show ?thesis
    using h short_essay_report [OF h] by blast
qed

end
